theory Spec2Isabelle
  imports Complex_Main
begin

section \<open>Python values shared by the embedding\<close>

text \<open>
  Exceptions of the source are values. Every function of the source that can raise
  returns its outcome \<open>Inl e\<close> (raised) or \<open>Inr v\<close> (returned \<open>v\<close>); a method that
  mutates its object returns the object as it stands afterwards next to the outcome,
  since what a Python method has written before it raises stays written.
\<close>

datatype error = ValueError | IndexError | TypeError

text \<open>
  A Python \<open>dict\<close> is an association list in insertion order with distinct keys:
  storing under a present key replaces the value in place, storing under a new key
  appends, \<open>del\<close> drops the entry.
\<close>

fun dict_set :: "'k \<Rightarrow> 'v \<Rightarrow> ('k \<times> 'v) list \<Rightarrow> ('k \<times> 'v) list" where
  "dict_set k v [] = [(k, v)]"
| "dict_set k v (p # ps) = (if fst p = k then (k, v) # ps else p # dict_set k v ps)"

fun dict_del :: "'k \<Rightarrow> ('k \<times> 'v) list \<Rightarrow> ('k \<times> 'v) list" where
  "dict_del k [] = []"
| "dict_del k (p # ps) = (if fst p = k then dict_del k ps else p # dict_del k ps)"

definition dict_get :: "('k \<times> 'v) list \<Rightarrow> 'k \<Rightarrow> 'v option" where
  "dict_get d k = map_of d k"

definition dict_keys :: "('k \<times> 'v) list \<Rightarrow> 'k list" where
  "dict_keys d = map fst d"

text \<open>Truthiness of an optional integer: \<open>None\<close> and \<open>0\<close> are false in Python.\<close>

fun truthy :: "int option \<Rightarrow> bool" where
  "truthy None = False"
| "truthy (Some i) = (i \<noteq> 0)"

section \<open>core/audio_devices.py: AudioDeviceManager\<close>

text \<open>
  A device is the dict built by \<open>_enumerate_devices\<close>. Of the manager only the fields
  the routing layer reads or writes are kept: \<open>devices\<close>, \<open>active_devices\<close> and the
  lazily created \<open>session_routes\<close> (absent is the empty dict).
\<close>

datatype direction = Output | Input

record device =
  dev_index :: int
  dev_name :: string
  dev_channels :: int
  dev_type :: direction
  dev_sample_rate :: int

record AudioDeviceManager =
  devices :: "device list"
  active_devices :: "(string \<times> device) list"
  session_routes :: "(int \<times> int) list"

text \<open>
  What PyAudio reports is the input of the enumeration: \<open>get_device_count()\<close> is the
  length of the list and \<open>get_device_info_by_index(i)\<close> its entry \<open>i\<close>.
  \<open>_enumerate_devices\<close> lists every device with output channels as an output entry,
  then every device with input channels as an input entry, each under its PyAudio index:
  a device with both appears twice, the output entry first. The call of
  \<open>AudioUtilities.GetSpeakers()\<close> at its start has no part in the result.
  \<open>py_int\<close> is Python's \<open>int()\<close> on a float, which truncates toward zero.
\<close>

record device_info =
  info_name :: string
  maxOutputChannels :: int
  maxInputChannels :: int
  defaultSampleRate :: real

definition py_int :: "real \<Rightarrow> int" where
  "py_int x = (if 0 \<le> x then \<lfloor>x\<rfloor> else \<lceil>x\<rceil>)"

definition output_entry :: "nat \<Rightarrow> device_info \<Rightarrow> device" where
  "output_entry i info =
     \<lparr>dev_index = int i, dev_name = info_name info, dev_channels = maxOutputChannels info,
      dev_type = Output, dev_sample_rate = py_int (defaultSampleRate info)\<rparr>"

definition input_entry :: "nat \<Rightarrow> device_info \<Rightarrow> device" where
  "input_entry i info =
     \<lparr>dev_index = int i, dev_name = info_name info, dev_channels = maxInputChannels info,
      dev_type = Input, dev_sample_rate = py_int (defaultSampleRate info)\<rparr>"

definition enumerate_devices :: "device_info list \<Rightarrow> device list" where
  "enumerate_devices infos =
     map (\<lambda>(i, info). output_entry i info)
       (filter (\<lambda>(i, info). 0 < maxOutputChannels info) (enumerate 0 infos)) @
     map (\<lambda>(i, info). input_entry i info)
       (filter (\<lambda>(i, info). 0 < maxInputChannels info) (enumerate 0 infos))"

definition AudioDeviceManager_init :: "device_info list \<Rightarrow> AudioDeviceManager" where
  "AudioDeviceManager_init infos =
     \<lparr>devices = enumerate_devices infos, active_devices = [], session_routes = []\<rparr>"

definition audio_types :: "string list" where
  "audio_types = [''game'', ''others'', ''system'', ''chat'', ''microphone'']"

text \<open>\<open>next((d for d in self.devices if d['index'] == device_index), None)\<close>\<close>

definition find_device :: "device list \<Rightarrow> int \<Rightarrow> device option" where
  "find_device ds i = List.find (\<lambda>d. dev_index d = i) ds"

definition set_device_for_audio_type ::
  "string \<Rightarrow> int \<Rightarrow> AudioDeviceManager \<Rightarrow> (error + bool) \<times> AudioDeviceManager" where
  "set_device_for_audio_type audio_type device_index dm =
     (if audio_type \<notin> set audio_types then (Inl ValueError, dm)
      else case find_device (devices dm) device_index of
        None \<Rightarrow> (Inl ValueError, dm)
      | Some d \<Rightarrow>
          if audio_type = ''microphone'' \<and> dev_type d \<noteq> Input then (Inl ValueError, dm)
          else if audio_type \<noteq> ''microphone'' \<and> dev_type d \<noteq> Output then (Inl ValueError, dm)
          else (Inr True, dm\<lparr>active_devices := dict_set audio_type d (active_devices dm)\<rparr>))"

definition get_device_for_audio_type ::
  "string \<Rightarrow> AudioDeviceManager \<Rightarrow> error + device option" where
  "get_device_for_audio_type audio_type dm =
     (if audio_type \<notin> set audio_types then Inl ValueError
      else Inr (dict_get (active_devices dm) audio_type))"

definition route_session_to_device ::
  "int \<Rightarrow> int \<Rightarrow> AudioDeviceManager \<Rightarrow> bool \<times> AudioDeviceManager" where
  "route_session_to_device pid device_index dm =
     (True, dm\<lparr>session_routes := dict_set pid device_index (session_routes dm)\<rparr>)"

section \<open>core/virtual_devices.py: VirtualAudioDevice and VirtualAudioRouter\<close>

text \<open>
  The stream of a device is the sounddevice handle; only whether one is held is kept.
  The processing chain is not touched by the operations modelled here.
\<close>

record VirtualAudioDevice =
  vd_name :: string
  vd_channels :: int
  vd_sample_rate :: int
  vd_buffer_size :: int
  is_active :: bool
  stream :: bool

definition VirtualAudioDevice_init :: "string \<Rightarrow> int \<Rightarrow> int \<Rightarrow> int \<Rightarrow> VirtualAudioDevice" where
  "VirtualAudioDevice_init name channels sample_rate buffer_size =
     \<lparr>vd_name = name, vd_channels = channels, vd_sample_rate = sample_rate,
      vd_buffer_size = buffer_size, is_active = False, stream = False\<rparr>"

definition stop :: "VirtualAudioDevice \<Rightarrow> VirtualAudioDevice" where
  "stop d = (if \<not> is_active d then d else d\<lparr>stream := False, is_active := False\<rparr>)"

text \<open>
  \<open>stop_log\<close> is not a field of the source: it records, in call order, the name of every
  device on which \<open>stop()\<close> has run, so that the number of calls can be stated.
  \<open>call_stop\<close> is one call of \<open>device.stop()\<close>, recorded.

  \<open>VirtualAudioDevice.__del__\<close> calls \<open>self.stop()\<close>, and CPython runs it at the
  moment the last reference to the device goes. In \<open>remove_virtual_device\<close> the
  references are the router's dict entry, deleted by the method, the local variable
  \<open>device\<close>, gone when the method returns, and whatever the caller's program still
  holds of what \<open>create_virtual_device\<close> or \<open>get_virtual_device\<close> returned. The
  last is not part of the router: it is the argument \<open>held_elsewhere\<close>. When nothing
  else holds the device, the destructor runs as the method returns.
\<close>

record VirtualAudioRouter =
  virtual_devices :: "(string \<times> VirtualAudioDevice) list"
  routing_table :: "(string \<times> string) list"
  stop_log :: "string list"

definition VirtualAudioRouter_init :: VirtualAudioRouter where
  "VirtualAudioRouter_init = \<lparr>virtual_devices = [], routing_table = [], stop_log = []\<rparr>"

definition get_virtual_device :: "string \<Rightarrow> VirtualAudioRouter \<Rightarrow> VirtualAudioDevice option" where
  "get_virtual_device name r = dict_get (virtual_devices r) name"

definition create_virtual_device ::
  "string \<Rightarrow> VirtualAudioRouter \<Rightarrow> (error + VirtualAudioDevice) \<times> VirtualAudioRouter" where
  "create_virtual_device name r =
     (if name \<in> set (dict_keys (virtual_devices r)) then (Inl ValueError, r)
      else let d = VirtualAudioDevice_init name 2 48000 1024
           in (Inr d, r\<lparr>virtual_devices := dict_set name d (virtual_devices r)\<rparr>))"

text \<open>
  The body of the loop of \<open>remove_virtual_device\<close> over the snapshot
  \<open>list(self.routing_table.keys())\<close>.
\<close>

definition drop_route_step :: "string \<Rightarrow> string \<Rightarrow> (string \<times> string) list \<Rightarrow> (string \<times> string) list" where
  "drop_route_step name source tbl =
     (if source = name \<or> dict_get tbl source = Some name then dict_del source tbl else tbl)"

definition call_stop :: "VirtualAudioDevice \<Rightarrow> string list \<Rightarrow> VirtualAudioDevice \<times> string list" where
  "call_stop d calls = (stop d, calls @ [vd_name d])"

definition VirtualAudioDevice_del :: "VirtualAudioDevice \<Rightarrow> string list \<Rightarrow> string list" where
  "VirtualAudioDevice_del d calls = snd (call_stop d calls)"

definition remove_virtual_device ::
  "string \<Rightarrow> bool \<Rightarrow> VirtualAudioRouter \<Rightarrow> bool \<times> VirtualAudioRouter" where
  "remove_virtual_device name held_elsewhere r =
     (case dict_get (virtual_devices r) name of
        None \<Rightarrow> (False, r)
      | Some device \<Rightarrow>
          let (device', calls1) = call_stop device (stop_log r);
              r1 = r\<lparr>virtual_devices := dict_set name device' (virtual_devices r),
                     stop_log := calls1\<rparr>;
              r2 = r1\<lparr>routing_table :=
                     fold (drop_route_step name) (dict_keys (routing_table r1)) (routing_table r1)\<rparr>;
              r3 = r2\<lparr>virtual_devices := dict_del name (virtual_devices r2)\<rparr>
          in (True,
              if held_elsewhere then r3
              else r3\<lparr>stop_log := VirtualAudioDevice_del device' (stop_log r3)\<rparr>))"

section \<open>core/audio_router.py: AudioRoutingSystem\<close>

record AudioRoutingSystem =
  device_manager :: AudioDeviceManager
  virtual_router :: VirtualAudioRouter
  routes :: "(string \<times> (int \<times> string)) list"
  unified_device_mode :: bool
  unified_output_device :: "int option"
  unified_input_device :: "int option"
  session_categories :: "(int \<times> string) list"

text \<open>The constructor, over what PyAudio reports at that moment.\<close>

definition AudioRoutingSystem_init :: "device_info list \<Rightarrow> AudioRoutingSystem" where
  "AudioRoutingSystem_init infos =
     \<lparr>device_manager = AudioDeviceManager_init infos,
      virtual_router = VirtualAudioRouter_init,
      routes = [],
      unified_device_mode = False,
      unified_output_device = None,
      unified_input_device = None,
      session_categories = []\<rparr>"

text \<open>
  The loop \<open>for audio_type in [...]: self.device_manager.set_device_for_audio_type(...)\<close>:
  the first call that raises ends it, with the assignments made so far kept.
\<close>

fun set_device_for_all ::
  "string list \<Rightarrow> int \<Rightarrow> AudioDeviceManager \<Rightarrow> (error + unit) \<times> AudioDeviceManager" where
  "set_device_for_all [] i dm = (Inr (), dm)"
| "set_device_for_all (t # ts) i dm =
     (case set_device_for_audio_type t i dm of
        (Inl e, dm') \<Rightarrow> (Inl e, dm')
      | (Inr _, dm') \<Rightarrow> set_device_for_all ts i dm')"

definition set_unified_device_mode ::
  "bool \<Rightarrow> int option \<Rightarrow> int option \<Rightarrow> AudioRoutingSystem \<Rightarrow> (error + unit) \<times> AudioRoutingSystem" where
  "set_unified_device_mode enabled output_device_id input_device_id s =
     (let s1 = s\<lparr>unified_device_mode := enabled\<rparr> in
      if \<not> enabled then (Inr (), s1)
      else
        let s2 = s1\<lparr>unified_output_device := output_device_id,
                    unified_input_device := input_device_id\<rparr>;
            (r1, dm1) =
               (if truthy output_device_id
                then set_device_for_all [''game'', ''others'', ''system'', ''chat'']
                       (the output_device_id) (device_manager s2)
                else (Inr (), device_manager s2))
        in case r1 of
             Inl e \<Rightarrow> (Inl e, s2\<lparr>device_manager := dm1\<rparr>)
           | Inr _ \<Rightarrow>
               if truthy input_device_id
               then (case set_device_for_audio_type ''microphone'' (the input_device_id) dm1 of
                       (Inl e, dm2) \<Rightarrow> (Inl e, s2\<lparr>device_manager := dm2\<rparr>)
                     | (Inr _, dm2) \<Rightarrow> (Inr (), s2\<lparr>device_manager := dm2\<rparr>))
               else (Inr (), s2\<lparr>device_manager := dm1\<rparr>))"

text \<open>
  The device id that \<open>create_route\<close> goes on with: the first four lines of its body.
\<close>

definition effective_device :: "string \<Rightarrow> int \<Rightarrow> AudioRoutingSystem \<Rightarrow> int" where
  "effective_device audio_type physical_device_id s =
     (if unified_device_mode s then
        (if audio_type = ''microphone'' \<and> truthy (unified_input_device s)
         then the (unified_input_device s)
         else if audio_type \<noteq> ''microphone'' \<and> truthy (unified_output_device s)
         then the (unified_output_device s)
         else physical_device_id)
      else physical_device_id)"

definition create_route ::
  "string \<Rightarrow> int \<Rightarrow> string \<Rightarrow> AudioRoutingSystem \<Rightarrow> (error + bool) \<times> AudioRoutingSystem" where
  "create_route audio_type physical_device_id virtual_device_name s =
     (let pid' = effective_device audio_type physical_device_id s in
      case set_device_for_audio_type audio_type pid' (device_manager s) of
        (Inl e, dm') \<Rightarrow> (Inl e, s\<lparr>device_manager := dm'\<rparr>)
      | (Inr _, dm') \<Rightarrow>
          let s1 = s\<lparr>device_manager := dm'\<rparr>;
              (rc, vr') =
                 (case get_virtual_device virtual_device_name (virtual_router s1) of
                    None \<Rightarrow> create_virtual_device virtual_device_name (virtual_router s1)
                  | Some d \<Rightarrow> (Inr d, virtual_router s1))
          in (case rc of
                Inl e \<Rightarrow> (Inl e, s1\<lparr>virtual_router := vr'\<rparr>)
              | Inr _ \<Rightarrow>
                  (Inr True,
                   s1\<lparr>virtual_router := vr',
                      routes := dict_set audio_type (pid', virtual_device_name) (routes s1)\<rparr>)))"

definition remove_route :: "string \<Rightarrow> AudioRoutingSystem \<Rightarrow> bool \<times> AudioRoutingSystem" where
  "remove_route audio_type s =
     (if audio_type \<in> set (dict_keys (routes s))
      then (True, s\<lparr>routes := dict_del audio_type (routes s)\<rparr>)
      else (False, s))"

definition get_route :: "string \<Rightarrow> AudioRoutingSystem \<Rightarrow> (int \<times> string) option" where
  "get_route audio_type s = dict_get (routes s) audio_type"

text \<open>
  \<open>route_session_to_category\<close>: every exception inside the \<open>try\<close> is turned into
  \<open>False\<close>. A device dict is never empty, so \<open>dev\<close> is true exactly when it is not
  \<open>None\<close>, and its \<open>'index'\<close> is always an integer.
\<close>

definition route_session_to_category ::
  "int \<Rightarrow> string \<Rightarrow> AudioRoutingSystem \<Rightarrow> bool \<times> AudioRoutingSystem" where
  "route_session_to_category pid category s =
     (case get_device_for_audio_type category (device_manager s) of
        Inl e \<Rightarrow> (False, s)
      | Inr None \<Rightarrow> (False, s)
      | Inr (Some dev) \<Rightarrow>
          let (ok, dm') = route_session_to_device pid (dev_index dev) (device_manager s)
          in (ok, s\<lparr>device_manager := dm'\<rparr>))"

definition set_session_category ::
  "int \<Rightarrow> string \<Rightarrow> AudioRoutingSystem \<Rightarrow> bool \<times> AudioRoutingSystem" where
  "set_session_category pid category s =
     (if category \<notin> set [''game'', ''others'', ''system'', ''chat''] then (False, s)
      else route_session_to_category pid category
             (s\<lparr>session_categories := dict_set pid category (session_categories s)\<rparr>))"

definition get_session_category :: "int \<Rightarrow> AudioRoutingSystem \<Rightarrow> string option" where
  "get_session_category pid s = dict_get (session_categories s) pid"

section \<open>audio_processing/processors.py: numpy values\<close>

text \<open>
  Samples, gains and frequencies are floating-point numbers in the source and real numbers
  here: rounding is not modelled. What finite operands can produce beyond the reals is
  modelled: numpy's division by zero returns an infinity or NaN instead of raising, and
  \<open>np.clip\<close> and the product carry them on. The sign of a zero is not modelled.
\<close>

datatype npfloat = Fin real | PInf | NInf | NaN

definition np_div :: "real \<Rightarrow> real \<Rightarrow> npfloat" where
  "np_div a b =
     (if b \<noteq> 0 then Fin (a / b) else if 0 < a then PInf else if a < 0 then NInf else NaN)"

text \<open>\<open>np.clip(v, 0, 1)\<close>\<close>

fun np_clip01 :: "npfloat \<Rightarrow> npfloat" where
  "np_clip01 (Fin v) = Fin (min (max v 0) 1)"
| "np_clip01 PInf = Fin 1"
| "np_clip01 NInf = Fin 0"
| "np_clip01 NaN = NaN"

fun np_mul :: "real \<Rightarrow> npfloat \<Rightarrow> npfloat" where
  "np_mul x (Fin m) = Fin (x * m)"
| "np_mul x PInf = (if 0 < x then PInf else if x < 0 then NInf else NaN)"
| "np_mul x NInf = (if 0 < x then NInf else if x < 0 then PInf else NaN)"
| "np_mul x NaN = NaN"

text \<open>
  An audio buffer is a one-dimensional array of samples or a two-dimensional array of
  frames, each frame a row with one sample per channel; \<open>Arr2 c rows\<close> has shape
  \<open>(length rows, c)\<close>.
\<close>

datatype buffer = Arr1 "real list" | Arr2 nat "real list list"

fun wf_buffer :: "buffer \<Rightarrow> bool" where
  "wf_buffer (Arr1 xs) = True"
| "wf_buffer (Arr2 c rows) = list_all (\<lambda>row. length row = c) rows"

fun buffer_size :: "buffer \<Rightarrow> nat" where
  "buffer_size (Arr1 xs) = length xs"
| "buffer_size (Arr2 c rows) = length rows * c"

fun buffer_scale :: "real \<Rightarrow> buffer \<Rightarrow> buffer" where
  "buffer_scale g (Arr1 xs) = Arr1 (map (\<lambda>x. x * g) xs)"
| "buffer_scale g (Arr2 c rows) = Arr2 c (map (map (\<lambda>x. x * g)) rows)"

text \<open>\<open>np.linspace(a, b, num)\<close> and \<open>np.logspace(a, b, num)\<close>\<close>

definition np_linspace :: "real \<Rightarrow> real \<Rightarrow> nat \<Rightarrow> real list" where
  "np_linspace a b num =
     (if num = 1 then [a]
      else map (\<lambda>i. a + real i * ((b - a) / real (num - 1))) [0..<num])"

definition np_logspace :: "real \<Rightarrow> real \<Rightarrow> nat \<Rightarrow> real list" where
  "np_logspace a b num = map (\<lambda>y. 10 powr y) (np_linspace a b num)"

section \<open>audio_processing/processors.py: AudioProcessor\<close>

record AudioProcessor =
  enabled :: bool
  sample_rate :: "real option"
  channels :: "int option"
  blocksize :: "int option"

section \<open>audio_processing/processors.py: Equalizer\<close>

text \<open>
  \<open>scipy.signal.butter(N, Wn, btype)\<close> is a library function and a parameter
  \<open>butter\<close> of the model: it returns the pair \<open>(b, a)\<close> or raises. The native backend
  is left out: the constructor ends with \<open>self._native = None\<close> on every path and
  nothing else assigns the field.
\<close>

type_synonym coeffs = "real list \<times> real list"

datatype btype = Low | High | Band

type_synonym butter_fn = "nat \<Rightarrow> npfloat list \<Rightarrow> btype \<Rightarrow> error + coeffs"

record Equalizer = AudioProcessor +
  bands :: nat
  min_freq :: real
  max_freq :: real
  frequencies :: "real list"
  gains :: "real list"
  smoothed_gains :: "real list"
  smoothing_tau_sec :: real
  alpha :: real
  epsilon_db :: real
  needs_update :: bool
  output_gain_db :: real
  filters :: "coeffs list"

text \<open>
  One turn of the loop of \<open>update_filters\<close> for band \<open>i\<close> at frequency \<open>freq\<close>:
  \<open>Inr None\<close> is the \<open>continue\<close>, \<open>Inr (Some (b, a))\<close> the pair that is appended.
\<close>

definition band_filter ::
  "butter_fn \<Rightarrow> real option \<Rightarrow> nat \<Rightarrow> real list \<Rightarrow> nat \<Rightarrow> real \<Rightarrow> error + coeffs option" where
  "band_filter butter sr nbands gs i freq =
     (if \<not> i < length gs then Inl IndexError
      else
        let g = gs ! i in
        if \<bar>g\<bar> < 1 / 10 then Inr None
        else
          let gain = 10 powr (g / 20) in
          case sr of
            None \<Rightarrow> Inl TypeError
          | Some rate \<Rightarrow>
              let design =
                (if i = 0 then butter 2 [np_div freq (rate / 2)] Low
                 else if int i = int nbands - 1 then butter 2 [np_div freq (rate / 2)] High
                 else
                   let bandwidth = freq / 1
                   in butter 2 [np_div (freq - bandwidth / 2) (rate / 2),
                                np_div (freq + bandwidth / 2) (rate / 2)] Band)
              in (case design of
                    Inl e \<Rightarrow> Inl e
                  | Inr (b, a) \<Rightarrow>
                      Inr (Some (if 0 < g then (map (\<lambda>x. x * gain) b, a)
                                 else (b, map (\<lambda>x. x * gain) a)))))"

fun build_filters ::
  "butter_fn \<Rightarrow> real option \<Rightarrow> nat \<Rightarrow> real list \<Rightarrow> (nat \<times> real) list \<Rightarrow> coeffs list
     \<Rightarrow> error option \<times> coeffs list" where
  "build_filters butter sr nbands gs [] acc = (None, acc)"
| "build_filters butter sr nbands gs ((i, freq) # rest) acc =
     (case band_filter butter sr nbands gs i freq of
        Inl e \<Rightarrow> (Some e, acc)
      | Inr None \<Rightarrow> build_filters butter sr nbands gs rest acc
      | Inr (Some c) \<Rightarrow> build_filters butter sr nbands gs rest (acc @ [c]))"

definition update_filters ::
  "butter_fn \<Rightarrow> real list \<Rightarrow> Equalizer \<Rightarrow> (error + unit) \<times> Equalizer" where
  "update_filters butter gs e =
     (let (err, fs) = build_filters butter (sample_rate e) (bands e) gs
                        (enumerate 0 (frequencies e)) []
      in (case err of None \<Rightarrow> Inr () | Some x \<Rightarrow> Inl x, e\<lparr>filters := fs\<rparr>))"

definition Equalizer_init :: "butter_fn \<Rightarrow> real \<Rightarrow> nat \<Rightarrow> (error + unit) \<times> Equalizer" where
  "Equalizer_init butter rate nbands =
     (let e = \<lparr>enabled = True, sample_rate = Some rate, channels = None, blocksize = None,
               bands = nbands, min_freq = 20, max_freq = 20000,
               frequencies = np_logspace (log 10 20) (log 10 20000) nbands,
               gains = replicate nbands 0,
               smoothed_gains = replicate nbands 0,
               smoothing_tau_sec = 3 / 100,
               alpha = 2 / 10,
               epsilon_db = 5 / 100,
               needs_update = True,
               output_gain_db = 0,
               filters = []\<rparr>
      in update_filters butter (gains e) e)"

definition set_gain :: "int \<Rightarrow> real \<Rightarrow> Equalizer \<Rightarrow> (error + unit) \<times> Equalizer" where
  "set_gain band gain_db e =
     (if band < 0 \<or> band \<ge> int (bands e) then (Inl ValueError, e)
      else if \<not> nat band < length (gains e) then (Inl IndexError, e)
      else (Inr (), e\<lparr>gains := (gains e)[nat band := gain_db], needs_update := True\<rparr>))"

definition set_bands :: "butter_fn \<Rightarrow> int \<Rightarrow> Equalizer \<Rightarrow> (error + unit) \<times> Equalizer" where
  "set_bands butter n e =
     (let nbands = nat (max 1 n);
          old_gains = gains e;
          copy_count = min (length old_gains) nbands;
          new_gains = take copy_count old_gains @ replicate (nbands - copy_count) 0;
          e1 = e\<lparr>bands := nbands,
                 frequencies := np_logspace (log 10 (min_freq e)) (log 10 (max_freq e)) nbands,
                 gains := new_gains,
                 smoothed_gains := new_gains\<rparr>
      in update_filters butter (smoothed_gains e1) e1)"

definition set_output_gain :: "real \<Rightarrow> Equalizer \<Rightarrow> Equalizer" where
  "set_output_gain gain_db e = e\<lparr>output_gain_db := gain_db\<rparr>"

definition set_smoothing_time :: "real \<Rightarrow> Equalizer \<Rightarrow> Equalizer" where
  "set_smoothing_time tau_seconds e = e\<lparr>smoothing_tau_sec := max 0 tau_seconds\<rparr>"

text \<open>
  The loop of \<open>_process_impl\<close>, \<open>data *= self.gains[band]\<close> for each band in turn. An
  index past the end of \<open>gains\<close> raises inside the \<open>try\<close>: the loop is left and the
  buffer is returned as scaled so far.
\<close>

fun apply_gains :: "real list \<Rightarrow> nat list \<Rightarrow> buffer \<Rightarrow> buffer" where
  "apply_gains gs [] data = data"
| "apply_gains gs (band # rest) data =
     (if band < length gs then apply_gains gs rest (buffer_scale (gs ! band) data) else data)"

definition Equalizer_process_impl :: "Equalizer \<Rightarrow> buffer \<Rightarrow> buffer \<times> Equalizer" where
  "Equalizer_process_impl e data =
     (if bands e = 0 \<or> buffer_size data = 0 then (data, e)
      else (apply_gains (gains e) [0..<bands e] data, e))"

definition Equalizer_process :: "Equalizer \<Rightarrow> buffer \<Rightarrow> buffer \<times> Equalizer" where
  "Equalizer_process e data =
     (if \<not> enabled e then (data, e) else Equalizer_process_impl e data)"

text \<open>The audio callback calls \<open>process\<close> once per buffer, on the same equalizer.\<close>

fun process_ticks :: "Equalizer \<Rightarrow> buffer list \<Rightarrow> buffer list \<times> Equalizer" where
  "process_ticks e [] = ([], e)"
| "process_ticks e (data # rest) =
     (let (out, e1) = Equalizer_process e data;
          (outs, e2) = process_ticks e1 rest
      in (out # outs, e2))"

section \<open>audio_processing/processors.py: SpatialEnhancer\<close>

record SpatialEnhancer = AudioProcessor +
  width :: real

definition SpatialEnhancer_init :: "real \<Rightarrow> SpatialEnhancer" where
  "SpatialEnhancer_init w =
     \<lparr>enabled = True, sample_rate = None, channels = None, blocksize = None,
      width = max 0 (min 1 w)\<rparr>"

definition set_width :: "real \<Rightarrow> SpatialEnhancer \<Rightarrow> SpatialEnhancer" where
  "set_width w se = se\<lparr>width := max 0 (min 1 w)\<rparr>"

text \<open>
  The arithmetic of \<open>_process_impl\<close> is floating-point arithmetic, and its results
  are not those of the reals: every operation rounds, and a result too large becomes an
  infinity, from which a NaN can follow. A \<open>float_format\<close> gives what the model
  needs of a floating-point type: the rounding of a real result to the nearest number of
  the type, \<open>rnd\<close>, and the largest finite number of the type, \<open>largest\<close>;
  \<open>finish\<close> is the end of every operation on finite operands. Two formats take part:
  \<open>F\<close>, the type of the buffer's samples, in which numpy computes on the arrays, and
  \<open>P\<close>, the type of a Python float, in which Python computes \<open>1 + self.width\<close>
  before numpy converts the sum to the type of the array. For a buffer of numpy's default
  type both are double precision. The samples of the buffer are finite numbers of the
  type. The sign of a zero is not modelled.
\<close>

record float_format =
  rnd :: "real \<Rightarrow> real"
  largest :: real

definition finish :: "float_format \<Rightarrow> real \<Rightarrow> npfloat" where
  "finish F x =
     (let y = rnd F x
      in if largest F < y then PInf else if y < - largest F then NInf else Fin y)"

fun f_neg :: "npfloat \<Rightarrow> npfloat" where
  "f_neg (Fin a) = Fin (- a)"
| "f_neg PInf = NInf"
| "f_neg NInf = PInf"
| "f_neg NaN = NaN"

fun f_abs :: "npfloat \<Rightarrow> npfloat" where
  "f_abs (Fin a) = Fin \<bar>a\<bar>"
| "f_abs PInf = PInf"
| "f_abs NInf = PInf"
| "f_abs NaN = NaN"

fun f_add :: "float_format \<Rightarrow> npfloat \<Rightarrow> npfloat \<Rightarrow> npfloat" where
  "f_add F (Fin a) (Fin b) = finish F (a + b)"
| "f_add F NaN y = NaN"
| "f_add F x NaN = NaN"
| "f_add F PInf NInf = NaN"
| "f_add F NInf PInf = NaN"
| "f_add F PInf y = PInf"
| "f_add F NInf y = NInf"
| "f_add F (Fin a) y = y"

definition f_sub :: "float_format \<Rightarrow> npfloat \<Rightarrow> npfloat \<Rightarrow> npfloat" where
  "f_sub F x y = f_add F x (f_neg y)"

text \<open>The infinity or NaN of a product or quotient with an infinite operand, by sign.\<close>

definition signed_inf :: "bool \<Rightarrow> npfloat" where
  "signed_inf negative = (if negative then NInf else PInf)"

fun f_mul :: "float_format \<Rightarrow> npfloat \<Rightarrow> npfloat \<Rightarrow> npfloat" where
  "f_mul F (Fin a) (Fin b) = finish F (a * b)"
| "f_mul F NaN y = NaN"
| "f_mul F x NaN = NaN"
| "f_mul F PInf (Fin b) = (if b = 0 then NaN else signed_inf (b < 0))"
| "f_mul F NInf (Fin b) = (if b = 0 then NaN else signed_inf (0 < b))"
| "f_mul F (Fin a) PInf = (if a = 0 then NaN else signed_inf (a < 0))"
| "f_mul F (Fin a) NInf = (if a = 0 then NaN else signed_inf (0 < a))"
| "f_mul F PInf PInf = PInf"
| "f_mul F PInf NInf = NInf"
| "f_mul F NInf PInf = NInf"
| "f_mul F NInf NInf = PInf"

fun f_div :: "float_format \<Rightarrow> npfloat \<Rightarrow> npfloat \<Rightarrow> npfloat" where
  "f_div F (Fin a) (Fin b) =
     (if b \<noteq> 0 then finish F (a / b)
      else if 0 < a then PInf else if a < 0 then NInf else NaN)"
| "f_div F NaN y = NaN"
| "f_div F x NaN = NaN"
| "f_div F (Fin a) PInf = Fin 0"
| "f_div F (Fin a) NInf = Fin 0"
| "f_div F PInf (Fin b) = signed_inf (b < 0)"
| "f_div F NInf (Fin b) = signed_inf (0 \<le> b)"
| "f_div F PInf y = NaN"
| "f_div F NInf y = NaN"

text \<open>
  One frame of the mid/side recombination: \<open>(data[:, 0] + data[:, 1]) / 2\<close>,
  \<open>(data[:, 0] - data[:, 1]) / 2\<close>, \<open>side * (1 + self.width)\<close>, \<open>mid + side\<close>,
  \<open>mid - side\<close>, each operation in floating point. A Python sum of finite numbers of
  magnitude far below the largest does not overflow.
\<close>

definition widen :: "float_format \<Rightarrow> float_format \<Rightarrow> real \<Rightarrow> real list \<Rightarrow> npfloat list" where
  "widen F P w row =
     (let mid = f_div F (f_add F (Fin (row ! 0)) (Fin (row ! 1))) (Fin 2);
          side = f_div F (f_sub F (Fin (row ! 0)) (Fin (row ! 1))) (Fin 2);
          side' = f_mul F side (finish F (rnd P (1 + w)))
      in [f_add F mid side', f_sub F mid side'])"

text \<open>
  \<open>np.max(np.abs(result))\<close>: it raises on an array without elements, and a NaN among
  the elements makes the maximum NaN.
\<close>

fun f_max :: "npfloat \<Rightarrow> npfloat \<Rightarrow> npfloat" where
  "f_max (Fin a) (Fin b) = Fin (max a b)"
| "f_max NaN y = NaN"
| "f_max x NaN = NaN"
| "f_max PInf y = PInf"
| "f_max x PInf = PInf"
| "f_max NInf y = y"
| "f_max x NInf = x"

definition np_max_abs :: "npfloat list list \<Rightarrow> error + npfloat" where
  "np_max_abs rows =
     (case concat (map (map f_abs) rows) of
        [] \<Rightarrow> Inl ValueError
      | x # xs \<Rightarrow> Inr (fold f_max xs x))"

text \<open>\<open>max_val > 1.0\<close>, false for a NaN.\<close>

fun exceeds_one :: "npfloat \<Rightarrow> bool" where
  "exceeds_one (Fin m) = (1 < m)"
| "exceeds_one PInf = True"
| "exceeds_one NInf = False"
| "exceeds_one NaN = False"

text \<open>
  What \<open>_process_impl\<close> returns: the array it was given (\<open>return data\<close>), or the new
  array \<open>result\<close> of stereo frames.
\<close>

datatype widened = Same_buffer | New_buffer "npfloat list list"

definition SpatialEnhancer_process_impl ::
  "float_format \<Rightarrow> float_format \<Rightarrow> SpatialEnhancer \<Rightarrow> buffer \<Rightarrow> error + widened" where
  "SpatialEnhancer_process_impl F P se data =
     (case data of
        Arr1 xs \<Rightarrow> Inl IndexError
      | Arr2 c rows \<Rightarrow>
          if c \<noteq> 2 then Inr Same_buffer
          else
            let result = map (widen F P (width se)) rows in
            (case np_max_abs result of
               Inl e \<Rightarrow> Inl e
             | Inr max_val \<Rightarrow>
                 Inr (New_buffer
                   (if exceeds_one max_val
                    then map (map (\<lambda>x. f_div F x max_val)) result
                    else result))))"

definition SpatialEnhancer_process ::
  "float_format \<Rightarrow> float_format \<Rightarrow> SpatialEnhancer \<Rightarrow> buffer \<Rightarrow> error + widened" where
  "SpatialEnhancer_process F P se data =
     (if \<not> enabled se then Inr Same_buffer else SpatialEnhancer_process_impl F P se data)"

section \<open>audio_processing/processors.py: NoiseReducer\<close>

record NoiseReducer = AudioProcessor +
  threshold :: real

definition NoiseReducer_init :: "real \<Rightarrow> NoiseReducer" where
  "NoiseReducer_init t =
     \<lparr>enabled = True, sample_rate = None, channels = None, blocksize = None, threshold = t\<rparr>"

definition set_threshold :: "real \<Rightarrow> NoiseReducer \<Rightarrow> NoiseReducer" where
  "set_threshold t nr = nr\<lparr>threshold := max 0 (min 1 t)\<rparr>"

text \<open>
  The result of the gate has the shape of a one-dimensional input (\<open>Gated1\<close>). A
  two-dimensional array (\<open>Gated2\<close>) comes back only from a disabled gate. For a two-dimensional
  input of shape \<open>(N, C)\<close> the mask is indexed \<open>[:, np.newaxis]\<close> into shape
  \<open>(N, 1, C)\<close> and the product broadcasts to shape \<open>(N, N, C)\<close>, with entry
  \<open>[i][j][c]\<close> the sample \<open>data[j][c]\<close> times the mask of \<open>data[i][c]\<close>.
\<close>

datatype gated =
  Gated1 "npfloat list" | Gated2 nat "npfloat list list" | Gated3 "npfloat list list list"

definition soft_mask :: "real \<Rightarrow> real \<Rightarrow> npfloat" where
  "soft_mask t x = np_clip01 (np_div (\<bar>x\<bar> - t) t)"

definition NoiseReducer_process_impl :: "NoiseReducer \<Rightarrow> buffer \<Rightarrow> gated" where
  "NoiseReducer_process_impl nr data =
     (case data of
        Arr1 xs \<Rightarrow> Gated1 (map (\<lambda>x. np_mul x (soft_mask (threshold nr) x)) xs)
      | Arr2 c rows \<Rightarrow>
          Gated3 (map (\<lambda>mrow. map (\<lambda>drow. map (\<lambda>(x, y). np_mul x (soft_mask (threshold nr) y))
                                              (zip drow mrow)) rows) rows))"

text \<open>The buffer itself, as the value a disabled processor hands back.\<close>

fun ungated :: "buffer \<Rightarrow> gated" where
  "ungated (Arr1 xs) = Gated1 (map Fin xs)"
| "ungated (Arr2 c rows) = Gated2 c (map (map Fin) rows)"

definition NoiseReducer_process :: "NoiseReducer \<Rightarrow> buffer \<Rightarrow> gated" where
  "NoiseReducer_process nr data =
     (if \<not> enabled nr then ungated data else NoiseReducer_process_impl nr data)"

section \<open>Properties and inputs used in the statements\<close>

text \<open>
  The constructor and \<open>set_bands\<close> size the three per-band arrays by \<open>bands\<close>, and
  no method changes the length of one of them alone.
\<close>

definition eq_consistent :: "Equalizer \<Rightarrow> bool" where
  "eq_consistent e \<longleftrightarrow>
     length (gains e) = bands e \<and> length (smoothed_gains e) = bands e \<and>
     length (frequencies e) = bands e"

text \<open>
  A stand-in for the filter designer where a concrete one is needed: it returns the
  coefficients of the pass-through biquad for every request.
\<close>

definition butter_unit :: butter_fn where
  "butter_unit N Wn btype = Inr ([1, 0, 0], [1, 0, 0])"

text \<open>
  The devices of one machine as PyAudio reports them, indices 0 to 4: two that only
  record, two that only play, and a headset that does both.
\<close>

definition host_devices :: "device_info list" where
  "host_devices =
     [\<lparr>info_name = ''Sound Mapper - Input'', maxOutputChannels = 0, maxInputChannels = 2,
        defaultSampleRate = 44100\<rparr>,
      \<lparr>info_name = ''Microphone'', maxOutputChannels = 0, maxInputChannels = 1,
        defaultSampleRate = 44100\<rparr>,
      \<lparr>info_name = ''Sound Mapper - Output'', maxOutputChannels = 2, maxInputChannels = 0,
        defaultSampleRate = 44100\<rparr>,
      \<lparr>info_name = ''Speakers'', maxOutputChannels = 2, maxInputChannels = 0,
        defaultSampleRate = 48000\<rparr>,
      \<lparr>info_name = ''Headset'', maxOutputChannels = 2, maxInputChannels = 1,
        defaultSampleRate = 48000\<rparr>]"

text \<open>
  A routing system in which the categories \<open>game\<close> and \<open>chat\<close> are both routed to the
  bus \<open>bus_game\<close>, and a router with three buses patched to one another.
\<close>

definition two_routes_one_bus :: AudioRoutingSystem where
  "two_routes_one_bus =
     snd (create_route ''chat'' 4 ''bus_game''
       (snd (create_route ''game'' 4 ''bus_game'' (AudioRoutingSystem_init host_devices))))"

definition patched_router :: VirtualAudioRouter where
  "patched_router =
     \<lparr>virtual_devices =
        [(''bus_game'', VirtualAudioDevice_init ''bus_game'' 2 48000 1024),
         (''bus_mix'', VirtualAudioDevice_init ''bus_mix'' 2 48000 1024),
         (''bus_aux'', VirtualAudioDevice_init ''bus_aux'' 2 48000 1024)],
      routing_table =
        [(''bus_game'', ''bus_mix''), (''bus_aux'', ''bus_game''), (''bus_mix'', ''bus_aux'')],
      stop_log = []\<rparr>"

text \<open>
  Rounding to nearest, as far as the statements need it: the rounding is monotone, leaves
  \<open>1\<close> and \<open>-1\<close> as they are, and moves a result \<open>x\<close> by at most \<open>u * |x| + eta\<close>,
  with \<open>u\<close> the unit roundoff and \<open>eta\<close> the largest error of a result that underflows.
  For IEEE double precision \<open>u\<close> is \<open>2^-53\<close> and \<open>eta\<close> is \<open>2^-1075\<close>.
\<close>

definition round_to_nearest :: "float_format \<Rightarrow> real \<Rightarrow> real \<Rightarrow> bool" where
  "round_to_nearest F u eta \<longleftrightarrow>
     0 \<le> u \<and> u \<le> 1 / 16 \<and> 0 \<le> eta \<and> eta \<le> 1 / 16 \<and>
     (\<forall>x y. x \<le> y \<longrightarrow> rnd F x \<le> rnd F y) \<and>
     rnd F 1 = 1 \<and> rnd F (- 1) = - 1 \<and>
     (\<forall>x. \<bar>rnd F x - x\<bar> \<le> u * \<bar>x\<bar> + eta)"

text \<open>
  The format in which every real is a number of the type, with the range of double
  precision. Where the operands and every intermediate result are dyadic rationals of
  few bits, double precision computes what it computes.
\<close>

definition exact_format :: float_format where
  "exact_format = \<lparr>rnd = (\<lambda>x. x), largest = (2 - 1 / 2 ^ 52) * 2 ^ 1023\<rparr>"

text \<open>
  Device \<open>i\<close> of what PyAudio reports has output channels, has input channels.
\<close>

definition has_output :: "device_info list \<Rightarrow> int \<Rightarrow> bool" where
  "has_output infos i \<longleftrightarrow>
     0 \<le> i \<and> nat i < length infos \<and> 0 < maxOutputChannels (infos ! nat i)"

definition has_input :: "device_info list \<Rightarrow> int \<Rightarrow> bool" where
  "has_input infos i \<longleftrightarrow>
     0 \<le> i \<and> nat i < length infos \<and> 0 < maxInputChannels (infos ! nat i)"

text \<open>
  A rounding to the nearest eighth, halves upward. It is not a floating-point type, but
  it rounds to nearest in the sense above, with \<open>u = 0\<close> and \<open>eta = 1/16\<close>, and
  the effect of rounding shows on small numbers.
\<close>

definition grid_format :: float_format where
  "grid_format = \<lparr>rnd = (\<lambda>x. of_int \<lfloor>x * 8 + 1 / 2\<rfloor> / 8), largest = 1024\<rparr>"

section \<open>Facts about dicts\<close>

lemma dict_get_set_same: "dict_get (dict_set k v d) k = Some v"
  by (induction d) (auto simp: dict_get_def)

lemma dict_get_set_other: "k' \<noteq> k \<Longrightarrow> dict_get (dict_set k v d) k' = dict_get d k'"
  by (induction d) (auto simp: dict_get_def)

section \<open>Session categories\<close>

lemma route_session_to_category_keeps:
  "session_categories (snd (route_session_to_category pid category s)) = session_categories s"
  by (simp add: route_session_to_category_def route_session_to_device_def
      split: sum.splits option.splits prod.splits)

text \<open>
  Claim C10. \<open>set_session_category(pid, category)\<close> with a category outside
  \<open>game\<close>, \<open>others\<close>, \<open>system\<close>, \<open>chat\<close> (\<open>microphone\<close> among them) returns
  \<open>False\<close> and leaves the whole routing system, its override map included, as it was.
  With a category of that list the override is in the map afterwards whatever the routing
  of the session returns, in particular when no device is assigned to the category and
  the call returns \<open>False\<close>.
\<close>

theorem set_session_category_override:
  "(category \<notin> set [''game'', ''others'', ''system'', ''chat''] \<longrightarrow>
      set_session_category pid category s = (False, s)) \<and>
   set_session_category pid ''microphone'' s = (False, s) \<and>
   (category \<in> set [''game'', ''others'', ''system'', ''chat''] \<longrightarrow>
      get_session_category pid (snd (set_session_category pid category s)) = Some category \<and>
      (dict_get (active_devices (device_manager s)) category = None \<longrightarrow>
         fst (set_session_category pid category s) = False))"
proof -
  have a: "category \<notin> set [''game'', ''others'', ''system'', ''chat''] \<longrightarrow>
      set_session_category pid category s = (False, s)"
    by (simp add: set_session_category_def)
  have b: "set_session_category pid ''microphone'' s = (False, s)"
    by (simp add: set_session_category_def)
  have c: "get_session_category pid (snd (set_session_category pid category s)) = Some category"
    if "category \<in> set [''game'', ''others'', ''system'', ''chat'']"
    using that
    by (simp add: set_session_category_def get_session_category_def
        route_session_to_category_keeps dict_get_set_same)
  have d: "fst (set_session_category pid category s) = False"
    if "category \<in> set [''game'', ''others'', ''system'', ''chat'']"
      "dict_get (active_devices (device_manager s)) category = None"
    using that
    by (auto simp: set_session_category_def route_session_to_category_def
        get_device_for_audio_type_def audio_types_def)
  from a b c d show ?thesis by blast
qed

theorem set_session_category_override_witness:
  "''chat'' \<in> set [''game'', ''others'', ''system'', ''chat''] \<and>
   ''microphone'' \<notin> set [''game'', ''others'', ''system'', ''chat''] \<and>
   dict_get (active_devices (device_manager (AudioRoutingSystem_init []))) ''chat'' = None \<and>
   set_session_category 42 ''microphone'' (AudioRoutingSystem_init [])
     = (False, AudioRoutingSystem_init []) \<and>
   fst (set_session_category 42 ''chat'' (AudioRoutingSystem_init [])) = False \<and>
   get_session_category 42 (snd (set_session_category 42 ''chat'' (AudioRoutingSystem_init [])))
     = Some ''chat''"
  using set_session_category_override [of "''chat''" 42 "AudioRoutingSystem_init []"]
    set_session_category_override [of "''microphone''" 42 "AudioRoutingSystem_init []"]
  by (simp add: AudioRoutingSystem_init_def AudioDeviceManager_init_def enumerate_devices_def
      dict_get_def)

section \<open>Equalizer: what the setters change\<close>

lemma update_filters_fields:
  "bands (snd (update_filters butter gs e)) = bands e"
  "frequencies (snd (update_filters butter gs e)) = frequencies e"
  "gains (snd (update_filters butter gs e)) = gains e"
  "smoothed_gains (snd (update_filters butter gs e)) = smoothed_gains e"
  "min_freq (snd (update_filters butter gs e)) = min_freq e"
  "max_freq (snd (update_filters butter gs e)) = max_freq e"
  "needs_update (snd (update_filters butter gs e)) = needs_update e"
  "output_gain_db (snd (update_filters butter gs e)) = output_gain_db e"
  "enabled (snd (update_filters butter gs e)) = enabled e"
  by (simp_all add: update_filters_def split: prod.splits)

lemma length_np_logspace: "length (np_logspace a b n) = n"
  by (simp add: np_logspace_def np_linspace_def)

lemma Equalizer_init_fields:
  "bands (snd (Equalizer_init butter rate n)) = n"
  "gains (snd (Equalizer_init butter rate n)) = replicate n 0"
  "smoothed_gains (snd (Equalizer_init butter rate n)) = replicate n 0"
  "enabled (snd (Equalizer_init butter rate n))"
  "output_gain_db (snd (Equalizer_init butter rate n)) = 0"
  by (simp_all add: Equalizer_init_def Let_def update_filters_fields)

lemma set_bands_fields:
  "bands (snd (set_bands butter n e)) = nat (max 1 n)"
  "frequencies (snd (set_bands butter n e))
     = np_logspace (log 10 (min_freq e)) (log 10 (max_freq e)) (nat (max 1 n))"
  "gains (snd (set_bands butter n e))
     = take (nat (max 1 n)) (gains e) @ replicate (nat (max 1 n) - length (gains e)) 0"
  "smoothed_gains (snd (set_bands butter n e)) = gains (snd (set_bands butter n e))"
  "min_freq (snd (set_bands butter n e)) = min_freq e"
  "max_freq (snd (set_bands butter n e)) = max_freq e"
  by (simp_all add: set_bands_def Let_def update_filters_fields min_def)

lemma Equalizer_init_consistent: "eq_consistent (snd (Equalizer_init butter rate n))"
  by (simp add: eq_consistent_def Equalizer_init_def Let_def update_filters_fields
      length_np_logspace)

lemma set_bands_consistent: "eq_consistent (snd (set_bands butter n e))"
  by (simp add: eq_consistent_def set_bands_def Let_def update_filters_fields
      length_np_logspace)

lemma set_gain_consistent: "eq_consistent e \<Longrightarrow> eq_consistent (snd (set_gain band g e))"
  by (simp add: eq_consistent_def set_gain_def)

text \<open>
  Claim C8. \<open>set_gain(band, gain_db)\<close> with \<open>band\<close> below zero or at or above the band
  count (so \<open>set_gain(-1, g)\<close> and \<open>set_gain(band_count, g)\<close>) raises, at once and to
  the caller, the error the source uses for a bad configuration, \<open>ValueError\<close>, and the
  equalizer is what it was: target gains, smoothed gains, filters and dirty flag. With a
  valid index on an equalizer whose arrays have \<open>bands\<close> entries, it returns, the target
  gain of that band is the new value, every other target gain is as before, the dirty
  flag is set, and smoothed gains and filters are untouched: no filter is recomputed.
\<close>

theorem set_gain_range_checked:
  "(band < 0 \<or> int (bands e) \<le> band \<longrightarrow> set_gain band g e = (Inl ValueError, e)) \<and>
   (0 \<le> band \<and> band < int (bands e) \<and> eq_consistent e \<longrightarrow>
      set_gain band g e = (Inr (), e\<lparr>gains := (gains e)[nat band := g], needs_update := True\<rparr>) \<and>
      gains (snd (set_gain band g e)) ! nat band = g \<and>
      (\<forall>j. j \<noteq> nat band \<longrightarrow> gains (snd (set_gain band g e)) ! j = gains e ! j) \<and>
      length (gains (snd (set_gain band g e))) = length (gains e) \<and>
      needs_update (snd (set_gain band g e)) \<and>
      smoothed_gains (snd (set_gain band g e)) = smoothed_gains e \<and>
      filters (snd (set_gain band g e)) = filters e)"
  by (auto simp: set_gain_def eq_consistent_def)

theorem set_gain_range_checked_witness:
  "((-1::int) < 0 \<or> int (bands (snd (Equalizer_init butter_unit 48000 10))) \<le> -1) \<and>
   ((10::int) < 0 \<or> int (bands (snd (Equalizer_init butter_unit 48000 10))) \<le> 10) \<and>
   ((0::int) \<le> 3 \<and> 3 < int (bands (snd (Equalizer_init butter_unit 48000 10))) \<and>
      eq_consistent (snd (Equalizer_init butter_unit 48000 10))) \<and>
   set_gain (-1) 6 (snd (Equalizer_init butter_unit 48000 10))
     = (Inl ValueError, snd (Equalizer_init butter_unit 48000 10)) \<and>
   set_gain 10 6 (snd (Equalizer_init butter_unit 48000 10))
     = (Inl ValueError, snd (Equalizer_init butter_unit 48000 10)) \<and>
   fst (set_gain 3 6 (snd (Equalizer_init butter_unit 48000 10))) = Inr () \<and>
   gains (snd (set_gain 3 6 (snd (Equalizer_init butter_unit 48000 10))))
     = [0, 0, 0, 6, 0, 0, 0, 0, 0, 0] \<and>
   needs_update (snd (set_gain 3 6 (snd (Equalizer_init butter_unit 48000 10)))) \<and>
   smoothed_gains (snd (set_gain 3 6 (snd (Equalizer_init butter_unit 48000 10))))
     = smoothed_gains (snd (Equalizer_init butter_unit 48000 10)) \<and>
   filters (snd (set_gain 3 6 (snd (Equalizer_init butter_unit 48000 10))))
     = filters (snd (Equalizer_init butter_unit 48000 10))"
  using set_gain_range_checked [of "-1" "snd (Equalizer_init butter_unit 48000 10)" 6]
    set_gain_range_checked [of 10 "snd (Equalizer_init butter_unit 48000 10)" 6]
    set_gain_range_checked [of 3 "snd (Equalizer_init butter_unit 48000 10)" 6]
    Equalizer_init_consistent [of butter_unit 48000 10]
  by (simp add: Equalizer_init_fields eval_nat_numeral)

text \<open>
  Claim C9. For band counts \<open>n\<close> and \<open>m\<close> of at least one (the counts 1 to 31 of the
  claim among them), \<open>set_bands(n)\<close>, \<open>set_bands(m)\<close>, \<open>set_bands(n)\<close> ends with the
  frequency table that the first \<open>set_bands(n)\<close> built, of \<open>n\<close> entries, and with
  \<open>n\<close> gains: below \<open>min(n, m)\<close> each gain is the one the band had after the first call,
  which is the one it had before the sequence where the equalizer had such a band, and
  from \<open>min(n, m)\<close> on the gains are zero. This holds of the equalizer's state whether or
  not the rebuild of the filters at the end of a call raises.
\<close>

theorem set_bands_round_trip:
  assumes "1 \<le> n" and "1 \<le> m"
    and "e1 = snd (set_bands butter n e)"
    and "e2 = snd (set_bands butter m e1)"
    and "e3 = snd (set_bands butter n e2)"
  shows "frequencies e3 = frequencies e1 \<and>
         frequencies e3 = np_logspace (log 10 (min_freq e)) (log 10 (max_freq e)) (nat n) \<and>
         length (frequencies e3) = nat n \<and>
         bands e3 = nat n \<and>
         length (gains e3) = nat n \<and>
         (\<forall>i. i < min (nat n) (nat m) \<longrightarrow> gains e3 ! i = gains e1 ! i) \<and>
         (\<forall>i. i < min (nat n) (nat m) \<and> i < length (gains e) \<longrightarrow> gains e3 ! i = gains e ! i) \<and>
         (\<forall>i. min (nat n) (nat m) \<le> i \<and> i < nat n \<longrightarrow> gains e3 ! i = 0)"
proof -
  have n1: "nat (max 1 n) = nat n" and m1: "nat (max 1 m) = nat m"
    using assms(1,2) by simp_all
  have f: "frequencies e3 = frequencies e1"
    by (simp add: assms(3-5) set_bands_fields)
  have f': "frequencies e3 = np_logspace (log 10 (min_freq e)) (log 10 (max_freq e)) (nat n)"
    by (simp add: assms(3-5) set_bands_fields n1)
  have lf: "length (frequencies e3) = nat n"
    by (simp add: f' length_np_logspace)
  have b: "bands e3 = nat n"
    by (simp add: assms(5) set_bands_fields n1)
  have l1: "length (gains e1) = nat n"
    using assms(1) by (simp add: assms(3) set_bands_fields n1)
  have g2: "gains e2 = take (nat m) (gains e1) @ replicate (nat m - nat n) 0"
    by (simp add: assms(4) set_bands_fields m1 l1)
  have l2: "length (gains e2) = nat m"
    using l1 by (simp add: g2)
  have g3: "gains e3 = take (nat n) (gains e2) @ replicate (nat n - nat m) 0"
    by (simp add: assms(5) set_bands_fields n1 l2)
  have l3: "length (gains e3) = nat n"
    using l2 by (simp add: g3)
  have keep: "gains e3 ! i = gains e1 ! i" if "i < min (nat n) (nat m)" for i
    using that l1 l2 by (simp add: g3 g2 nth_append)
  have orig: "gains e1 ! i = gains e ! i" if "i < nat n" "i < length (gains e)" for i
    using that by (simp add: assms(3) set_bands_fields n1 nth_append)
  have zero: "gains e3 ! i = 0" if "min (nat n) (nat m) \<le> i" "i < nat n" for i
    using that l1 l2 by (auto simp: g3 g2 nth_append min_def split: if_splits)
  from f f' lf b l3 keep orig zero show ?thesis by simp
qed

theorem set_bands_round_trip_witness:
  "(1::int) \<le> 5 \<and> (1::int) \<le> 3 \<and>
   gains (snd (set_gain 4 (-3) (snd (set_gain 1 6 (snd (Equalizer_init butter_unit 48000 10))))))
     = [0, 6, 0, 0, -3, 0, 0, 0, 0, 0] \<and>
   gains (snd (set_bands butter_unit 5
      (snd (set_gain 4 (-3) (snd (set_gain 1 6 (snd (Equalizer_init butter_unit 48000 10))))))))
     = [0, 6, 0, 0, -3] \<and>
   frequencies (snd (set_bands butter_unit 5 (snd (set_bands butter_unit 3 (snd (set_bands butter_unit 5
      (snd (set_gain 4 (-3) (snd (set_gain 1 6 (snd (Equalizer_init butter_unit 48000 10))))))))))))
     = frequencies (snd (set_bands butter_unit 5
      (snd (set_gain 4 (-3) (snd (set_gain 1 6 (snd (Equalizer_init butter_unit 48000 10)))))))) \<and>
   gains (snd (set_bands butter_unit 5 (snd (set_bands butter_unit 3 (snd (set_bands butter_unit 5
      (snd (set_gain 4 (-3) (snd (set_gain 1 6 (snd (Equalizer_init butter_unit 48000 10))))))))))))
     = [0, 6, 0, 0, 0]"
  using set_bands_round_trip [of 5 3
      "snd (set_bands butter_unit 5
        (snd (set_gain 4 (-3) (snd (set_gain 1 6 (snd (Equalizer_init butter_unit 48000 10)))))))"
      butter_unit
      "snd (set_gain 4 (-3) (snd (set_gain 1 6 (snd (Equalizer_init butter_unit 48000 10)))))"
      "snd (set_bands butter_unit 3 (snd (set_bands butter_unit 5
        (snd (set_gain 4 (-3) (snd (set_gain 1 6 (snd (Equalizer_init butter_unit 48000 10)))))))))"
      "snd (set_bands butter_unit 5 (snd (set_bands butter_unit 3 (snd (set_bands butter_unit 5
        (snd (set_gain 4 (-3) (snd (set_gain 1 6 (snd (Equalizer_init butter_unit 48000 10)))))))))))"]
  by (simp add: set_bands_fields set_gain_def Equalizer_init_fields eval_nat_numeral)

section \<open>Routes in unified mode\<close>

lemma find_append_first:
  "List.find P (xs @ ys) = (case List.find P xs of None \<Rightarrow> List.find P ys | Some x \<Rightarrow> Some x)"
  by (induction xs) auto

lemma find_in_enumeration:
  assumes "\<And>k x. dev_index (f k x) = int k"
  shows "List.find (\<lambda>d. dev_index d = i)
           (map (\<lambda>(k, x). f k x) (filter (\<lambda>(k, x). Q x) (enumerate n xs)))
         = (if int n \<le> i \<and> nat i - n < length xs \<and> Q (xs ! (nat i - n))
            then Some (f (nat i) (xs ! (nat i - n))) else None)"
proof (induction xs arbitrary: n)
  case Nil
  then show ?case by simp
next
  case (Cons x xs)
  show ?case
  proof (cases "i = int n")
    case True
    then show ?thesis using assms Cons.IH[of "Suc n"] by auto
  next
    case False
    then have "nat i - n = Suc (nat i - Suc n)" if "int n \<le> i"
      using that by linarith
    with False show ?thesis using assms Cons.IH[of "Suc n"]
      by (auto simp: nth_Cons split: nat.splits)
  qed
qed

lemma find_device_enumerated:
  "find_device (enumerate_devices infos) i =
     (if 0 \<le> i \<and> nat i < length infos \<and> 0 < maxOutputChannels (infos ! nat i)
      then Some (output_entry (nat i) (infos ! nat i))
      else if 0 \<le> i \<and> nat i < length infos \<and> 0 < maxInputChannels (infos ! nat i)
      then Some (input_entry (nat i) (infos ! nat i))
      else None)"
proof -
  have o: "\<And>k x. dev_index (output_entry k x) = int k" by (simp add: output_entry_def)
  have n: "\<And>k x. dev_index (input_entry k x) = int k" by (simp add: input_entry_def)
  show ?thesis
    unfolding find_device_def enumerate_devices_def find_append_first
    by (simp add: find_in_enumeration[where f = output_entry, OF o]
        find_in_enumeration[where f = input_entry, OF n])
qed

lemma set_device_ok:
  "audio_type \<in> set audio_types \<Longrightarrow> find_device (devices dm) i = Some d \<Longrightarrow>
   (audio_type = ''microphone'' \<and> dev_type d = Input) \<or> (audio_type \<noteq> ''microphone'' \<and> dev_type d = Output) \<Longrightarrow>
   set_device_for_audio_type audio_type i dm
     = (Inr True, dm\<lparr>active_devices := dict_set audio_type d (active_devices dm)\<rparr>)"
  by (auto simp: set_device_for_audio_type_def)

lemma create_virtual_device_absent:
  "get_virtual_device name r = None \<Longrightarrow>
   create_virtual_device name r
     = (Inr (VirtualAudioDevice_init name 2 48000 1024),
        r\<lparr>virtual_devices := dict_set name (VirtualAudioDevice_init name 2 48000 1024) (virtual_devices r)\<rparr>)"
  by (auto simp: get_virtual_device_def create_virtual_device_def dict_keys_def dict_get_def
      map_of_eq_None_iff Let_def)

lemma create_route_stores:
  assumes "set_device_for_audio_type audio_type (effective_device audio_type p s) (device_manager s) = (Inr True, dm')"
  shows "fst (create_route audio_type p v s) = Inr True \<and>
         get_route audio_type (snd (create_route audio_type p v s)) = Some (effective_device audio_type p s, v)"
proof (cases "get_virtual_device v (virtual_router (s\<lparr>device_manager := dm'\<rparr>))")
  case None
  then show ?thesis
    using assms create_virtual_device_absent[OF None]
    by (simp add: create_route_def Let_def get_route_def dict_get_set_same)
next
  case (Some d)
  then show ?thesis
    using assms
    by (simp add: create_route_def Let_def get_route_def dict_get_set_same)
qed

lemma create_route_raises:
  assumes "set_device_for_audio_type audio_type (effective_device audio_type p s) (device_manager s) = (Inl err, dm')"
  shows "create_route audio_type p v s = (Inl err, s)"
proof -
  have "dm' = device_manager s"
    using assms by (auto simp: set_device_for_audio_type_def split: if_splits option.splits)
  then show ?thesis using assms by (simp add: create_route_def Let_def)
qed

lemma find_device_output:
  "has_output infos i \<Longrightarrow>
   find_device (enumerate_devices infos) i = Some (output_entry (nat i) (infos ! nat i))"
  by (simp add: find_device_enumerated has_output_def)

lemma find_device_input:
  "has_input infos i \<Longrightarrow> \<not> has_output infos i \<Longrightarrow>
   find_device (enumerate_devices infos) i = Some (input_entry (nat i) (infos ! nat i))"
  by (auto simp: find_device_enumerated has_output_def has_input_def)

lemma find_device_neither:
  "\<not> has_input infos i \<Longrightarrow> \<not> has_output infos i \<Longrightarrow>
   find_device (enumerate_devices infos) i = None"
  by (auto simp: find_device_enumerated has_output_def has_input_def)

text \<open>
  Claim C7, as amended. In unified mode with output device \<open>d_out\<close> and input device
  \<open>d_in\<close>, both different from \<open>0\<close>, on the devices that PyAudio reports:
  \<open>create_route\<close> for one of the categories \<open>game\<close>, \<open>others\<close>, \<open>system\<close>,
  \<open>chat\<close> stores \<open>d_out\<close> with the bus name, not the device passed in, when device
  \<open>d_out\<close> has output channels; for the category \<open>microphone\<close> it stores \<open>d_in\<close>
  when device \<open>d_in\<close> has input channels and no output channels. \<open>create_route\<close>
  raises \<open>ValueError\<close> and leaves the routing system as it was, with no route stored,
  for a category other than \<open>microphone\<close> that the device manager does not know or
  whose device \<open>d_out\<close> has no output channels or does not exist, and for
  \<open>microphone\<close> when device \<open>d_in\<close> has no input channels or does not exist.
\<close>

theorem create_route_unified:
  assumes "unified_device_mode s"
    and "unified_output_device s = Some d_out" and "d_out \<noteq> 0"
    and "unified_input_device s = Some d_in" and "d_in \<noteq> 0"
    and "devices (device_manager s) = enumerate_devices infos"
  shows
   "(category \<in> set [''game'', ''others'', ''system'', ''chat''] \<and> has_output infos d_out \<longrightarrow>
       fst (create_route category d_other bus_name s) = Inr True \<and>
       get_route category (snd (create_route category d_other bus_name s)) = Some (d_out, bus_name)) \<and>
    (has_input infos d_in \<and> \<not> has_output infos d_in \<longrightarrow>
       fst (create_route ''microphone'' d_other bus_name s) = Inr True \<and>
       get_route ''microphone'' (snd (create_route ''microphone'' d_other bus_name s))
         = Some (d_in, bus_name)) \<and>
    (category \<noteq> ''microphone'' \<and> (category \<notin> set audio_types \<or> \<not> has_output infos d_out) \<longrightarrow>
       create_route category d_other bus_name s = (Inl ValueError, s)) \<and>
    (\<not> has_input infos d_in \<longrightarrow>
       create_route ''microphone'' d_other bus_name s = (Inl ValueError, s))"
proof -
  let ?dm = "device_manager s"
  have eff_out: "effective_device c d_other s = d_out" if "c \<noteq> ''microphone''" for c
    using that assms by (simp add: effective_device_def)
  have eff_in: "effective_device ''microphone'' d_other s = d_in"
    using assms by (simp add: effective_device_def)
  have a: "fst (create_route category d_other bus_name s) = Inr True \<and>
       get_route category (snd (create_route category d_other bus_name s)) = Some (d_out, bus_name)"
    if "category \<in> set [''game'', ''others'', ''system'', ''chat'']" "has_output infos d_out"
  proof -
    have nm: "category \<noteq> ''microphone''" using that(1) by auto
    have at: "category \<in> set audio_types" using that(1) by (auto simp: audio_types_def)
    let ?d = "output_entry (nat d_out) (infos ! nat d_out)"
    have f: "find_device (devices ?dm) d_out = Some ?d"
      using find_device_output[OF that(2)] assms(6) by simp
    have "dev_type ?d = Output" by (simp add: output_entry_def)
    then have "set_device_for_audio_type category d_out ?dm
      = (Inr True, ?dm\<lparr>active_devices := dict_set category ?d (active_devices ?dm)\<rparr>)"
      using set_device_ok[OF at f] nm by simp
    then show ?thesis
      using create_route_stores[of category d_other s _ bus_name] eff_out[OF nm] by simp
  qed
  have b: "fst (create_route ''microphone'' d_other bus_name s) = Inr True \<and>
       get_route ''microphone'' (snd (create_route ''microphone'' d_other bus_name s))
         = Some (d_in, bus_name)"
    if "has_input infos d_in" "\<not> has_output infos d_in"
  proof -
    have at: "''microphone'' \<in> set audio_types" by (simp add: audio_types_def)
    let ?d = "input_entry (nat d_in) (infos ! nat d_in)"
    have f: "find_device (devices ?dm) d_in = Some ?d"
      using find_device_input[OF that] assms(6) by simp
    have "dev_type ?d = Input" by (simp add: input_entry_def)
    then have "set_device_for_audio_type ''microphone'' d_in ?dm
      = (Inr True, ?dm\<lparr>active_devices := dict_set ''microphone'' ?d (active_devices ?dm)\<rparr>)"
      using set_device_ok[OF at f] by simp
    then show ?thesis
      using create_route_stores[of "''microphone''" d_other s _ bus_name] eff_in by simp
  qed
  have c: "create_route category d_other bus_name s = (Inl ValueError, s)"
    if "category \<noteq> ''microphone''" "category \<notin> set audio_types \<or> \<not> has_output infos d_out"
  proof -
    have "set_device_for_audio_type category d_out ?dm = (Inl ValueError, ?dm)"
    proof (cases "category \<in> set audio_types")
      case False
      then show ?thesis by (simp add: set_device_for_audio_type_def)
    next
      case True
      with that(2) have no: "\<not> has_output infos d_out" by simp
      show ?thesis
      proof (cases "has_input infos d_out")
        case True
        have "find_device (devices ?dm) d_out
                = Some (input_entry (nat d_out) (infos ! nat d_out))"
          using find_device_input[OF True no] assms(6) by simp
        then show ?thesis
          using that(1) by (simp add: set_device_for_audio_type_def input_entry_def)
      next
        case False
        have "find_device (devices ?dm) d_out = None"
          using find_device_neither[OF False no] assms(6) by simp
        then show ?thesis by (simp add: set_device_for_audio_type_def)
      qed
    qed
    then show ?thesis
      using create_route_raises[of category d_other s ValueError ?dm bus_name]
        eff_out[OF that(1)] by simp
  qed
  have d: "create_route ''microphone'' d_other bus_name s = (Inl ValueError, s)"
    if no: "\<not> has_input infos d_in"
  proof -
    have "set_device_for_audio_type ''microphone'' d_in ?dm = (Inl ValueError, ?dm)"
    proof (cases "has_output infos d_in")
      case True
      have "find_device (devices ?dm) d_in
              = Some (output_entry (nat d_in) (infos ! nat d_in))"
        using find_device_output[OF True] assms(6) by simp
      then show ?thesis
        by (simp add: set_device_for_audio_type_def output_entry_def)
    next
      case False
      have "find_device (devices ?dm) d_in = None"
        using find_device_neither[OF no False] assms(6) by simp
      then show ?thesis by (simp add: set_device_for_audio_type_def)
    qed
    then show ?thesis
      using create_route_raises[of "''microphone''" d_other s ValueError ?dm bus_name]
        eff_in by simp
  qed
  from a b c d show ?thesis by blast
qed

lemmas eval_router =
  set_unified_device_mode_def AudioRoutingSystem_init_def AudioDeviceManager_init_def
  enumerate_devices_def output_entry_def input_entry_def host_devices_def py_int_def
  VirtualAudioRouter_init_def set_device_for_audio_type_def audio_types_def find_device_def
  dict_get_def dict_keys_def create_route_def effective_device_def get_virtual_device_def
  create_virtual_device_def VirtualAudioDevice_init_def get_route_def Let_def

theorem create_route_unified_counterexample:
  "unified_device_mode
     (snd (set_unified_device_mode True (Some 9) (Some 1) (AudioRoutingSystem_init host_devices))) \<and>
   unified_output_device
     (snd (set_unified_device_mode True (Some 9) (Some 1) (AudioRoutingSystem_init host_devices)))
     = Some 9 \<and>
   unified_input_device
     (snd (set_unified_device_mode True (Some 9) (Some 1) (AudioRoutingSystem_init host_devices)))
     = Some 1 \<and>
   fst (create_route ''chat'' 4 ''bus_chat''
     (snd (set_unified_device_mode True (Some 9) (Some 1) (AudioRoutingSystem_init host_devices))))
     = Inl ValueError \<and>
   get_route ''chat'' (snd (create_route ''chat'' 4 ''bus_chat''
     (snd (set_unified_device_mode True (Some 9) (Some 1) (AudioRoutingSystem_init host_devices)))))
     \<noteq> Some (9, ''bus_chat'')"
  by (simp add: eval_router)

theorem create_route_unified_witness:
  "unified_device_mode
     (snd (set_unified_device_mode True (Some 3) (Some 1) (AudioRoutingSystem_init host_devices))) \<and>
   devices (device_manager
     (snd (set_unified_device_mode True (Some 3) (Some 1) (AudioRoutingSystem_init host_devices))))
     = enumerate_devices host_devices \<and>
   has_output host_devices 3 \<and> has_input host_devices 1 \<and> \<not> has_output host_devices 1 \<and>
   \<not> has_input host_devices 3 \<and>
   fst (create_route ''chat'' 4 ''bus_chat''
     (snd (set_unified_device_mode True (Some 3) (Some 1) (AudioRoutingSystem_init host_devices))))
     = Inr True \<and>
   get_route ''chat'' (snd (create_route ''chat'' 4 ''bus_chat''
     (snd (set_unified_device_mode True (Some 3) (Some 1) (AudioRoutingSystem_init host_devices)))))
     = Some (3, ''bus_chat'') \<and>
   get_route ''microphone'' (snd (create_route ''microphone'' 4 ''bus_mic''
     (snd (set_unified_device_mode True (Some 3) (Some 1) (AudioRoutingSystem_init host_devices)))))
     = Some (1, ''bus_mic'') \<and>
   create_route ''music'' 4 ''bus_music''
     (snd (set_unified_device_mode True (Some 3) (Some 1) (AudioRoutingSystem_init host_devices)))
     = (Inl ValueError,
        snd (set_unified_device_mode True (Some 3) (Some 1) (AudioRoutingSystem_init host_devices))) \<and>
   create_route ''microphone'' 1 ''bus_mic''
     (snd (set_unified_device_mode True (Some 4) (Some 3) (AudioRoutingSystem_init host_devices)))
     = (Inl ValueError,
        snd (set_unified_device_mode True (Some 4) (Some 3) (AudioRoutingSystem_init host_devices)))"
  using create_route_unified [of
      "snd (set_unified_device_mode True (Some 3) (Some 1) (AudioRoutingSystem_init host_devices))"
      3 1 host_devices "''chat''" 4 "''bus_chat''"]
    create_route_unified [of
      "snd (set_unified_device_mode True (Some 3) (Some 1) (AudioRoutingSystem_init host_devices))"
      3 1 host_devices "''chat''" 4 "''bus_mic''"]
    create_route_unified [of
      "snd (set_unified_device_mode True (Some 3) (Some 1) (AudioRoutingSystem_init host_devices))"
      3 1 host_devices "''music''" 4 "''bus_music''"]
    create_route_unified [of
      "snd (set_unified_device_mode True (Some 4) (Some 3) (AudioRoutingSystem_init host_devices))"
      4 3 host_devices "''chat''" 1 "''bus_mic''"]
  by (simp add: eval_router has_output_def has_input_def)

section \<open>Removing a virtual device\<close>

lemma dict_del_filter: "dict_del k d = filter (\<lambda>p. fst p \<noteq> k) d"
  by (induction d) auto

lemma drop_route_step_filter:
  assumes "distinct (map fst tbl)"
  shows "drop_route_step name k tbl
           = filter (\<lambda>p. \<not> (fst p = k \<and> (fst p = name \<or> snd p = name))) tbl"
proof (cases "k = name \<or> dict_get tbl k = Some name")
  case True
  have "fst p = k \<Longrightarrow> fst p = name \<or> snd p = name" if "p \<in> set tbl" for p
    using True that assms by (cases p) (auto simp: dict_get_def dest: eq_key_imp_eq_value)
  then have "filter (\<lambda>p. fst p \<noteq> k) tbl
           = filter (\<lambda>p. \<not> (fst p = k \<and> (fst p = name \<or> snd p = name))) tbl"
    by (intro filter_cong) auto
  with True show ?thesis by (simp add: drop_route_step_def dict_del_filter)
next
  case False
  have "\<not> (fst p = k \<and> (fst p = name \<or> snd p = name))" if "p \<in> set tbl" for p
    using False that assms by (cases p) (auto simp: dict_get_def)
  then have "filter (\<lambda>p. \<not> (fst p = k \<and> (fst p = name \<or> snd p = name))) tbl = tbl"
    by (simp add: filter_id_conv)
  with False show ?thesis by (simp add: drop_route_step_def)
qed

lemma fold_drop_route_step:
  "distinct (map fst tbl) \<Longrightarrow>
   fold (drop_route_step name) ks tbl
     = filter (\<lambda>p. \<not> (fst p \<in> set ks \<and> (fst p = name \<or> snd p = name))) tbl"
proof (induction ks arbitrary: tbl)
  case Nil
  then show ?case by simp
next
  case (Cons k ks)
  let ?t = "filter (\<lambda>p. \<not> (fst p = k \<and> (fst p = name \<or> snd p = name))) tbl"
  have d: "distinct (map fst ?t)" using Cons.prems by (simp add: distinct_map_filter)
  have "fold (drop_route_step name) (k # ks) tbl = fold (drop_route_step name) ks ?t"
    by (simp add: drop_route_step_filter[OF Cons.prems])
  also have "\<dots> = filter (\<lambda>p. \<not> (fst p \<in> set ks \<and> (fst p = name \<or> snd p = name))) ?t"
    by (rule Cons.IH[OF d])
  also have "\<dots> = filter (\<lambda>p. \<not> (fst p \<in> set (k # ks) \<and> (fst p = name \<or> snd p = name))) tbl"
    by (auto intro: filter_cong)
  finally show ?case .
qed

lemma routing_table_after_removal:
  assumes "distinct (map fst tbl)"
  shows "fold (drop_route_step name) (dict_keys tbl) tbl
           = filter (\<lambda>p. fst p \<noteq> name \<and> snd p \<noteq> name) tbl"
proof -
  have "filter (\<lambda>p. \<not> (fst p \<in> set (dict_keys tbl) \<and> (fst p = name \<or> snd p = name))) tbl
      = filter (\<lambda>p. fst p \<noteq> name \<and> snd p \<noteq> name) tbl"
    by (rule filter_cong) (auto simp: dict_keys_def)
  then show ?thesis by (simp add: fold_drop_route_step[OF assms])
qed

lemma dict_get_del_same: "dict_get (dict_del k d) k = None"
  by (induction d) (auto simp: dict_get_def)

lemma stop_twice: "stop (stop d) = stop d"
  by (simp add: stop_def)

text \<open>
  Claim C6, as amended. \<open>remove_virtual_device(name)\<close> on a bus the router has returns
  \<open>True\<close>, deletes the bus, and drops from the router's own table of bus-to-bus routes
  exactly the entries whose source or destination is that bus. It calls \<open>stop()\<close> of
  that bus once itself and of no other bus; when nothing else holds the device, its
  destructor calls \<open>stop()\<close> a second time as the method returns, two calls in all, and
  the second call changes nothing, the device being stopped already. The category routes
  of the routing system are not touched: they are the same after the removal, those
  naming the removed bus included.
\<close>

theorem remove_virtual_device_effect:
  assumes "get_virtual_device name (virtual_router s) = Some d"
    and "vd_name d = name"
    and "distinct (map fst (routing_table (virtual_router s)))"
    and "r' = snd (remove_virtual_device name held_elsewhere (virtual_router s))"
  shows "fst (remove_virtual_device name held_elsewhere (virtual_router s)) = True \<and>
         stop_log r'
           = stop_log (virtual_router s) @ (if held_elsewhere then [name] else [name, name]) \<and>
         stop (stop d) = stop d \<and>
         get_virtual_device name r' = None \<and>
         routing_table r'
           = filter (\<lambda>p. fst p \<noteq> name \<and> snd p \<noteq> name) (routing_table (virtual_router s)) \<and>
         routes (s\<lparr>virtual_router := r'\<rparr>) = routes s"
  using assms
  by (simp add: remove_virtual_device_def get_virtual_device_def Let_def call_stop_def
      VirtualAudioDevice_del_def stop_twice routing_table_after_removal dict_get_del_same
      stop_def)

theorem remove_virtual_device_effect_counterexample:
  "routes two_routes_one_bus = [(''game'', (4, ''bus_game'')), (''chat'', (4, ''bus_game''))] \<and>
   fst (remove_virtual_device ''bus_game'' False (virtual_router two_routes_one_bus)) = True \<and>
   get_virtual_device ''bus_game''
     (snd (remove_virtual_device ''bus_game'' False (virtual_router two_routes_one_bus))) = None \<and>
   get_route ''game'' (two_routes_one_bus
     \<lparr>virtual_router :=
        snd (remove_virtual_device ''bus_game'' False (virtual_router two_routes_one_bus))\<rparr>)
     = Some (4, ''bus_game'') \<and>
   get_route ''chat'' (two_routes_one_bus
     \<lparr>virtual_router :=
        snd (remove_virtual_device ''bus_game'' False (virtual_router two_routes_one_bus))\<rparr>)
     = Some (4, ''bus_game'') \<and>
   stop_log (snd (remove_virtual_device ''bus_game'' False (virtual_router two_routes_one_bus)))
     = [''bus_game'', ''bus_game'']"
  by (simp add: two_routes_one_bus_def remove_virtual_device_def call_stop_def
      VirtualAudioDevice_del_def stop_def eval_router)

theorem remove_virtual_device_effect_witness:
  "get_virtual_device ''bus_game'' patched_router
     = Some (VirtualAudioDevice_init ''bus_game'' 2 48000 1024) \<and>
   vd_name (VirtualAudioDevice_init ''bus_game'' 2 48000 1024) = ''bus_game'' \<and>
   distinct (map fst (routing_table patched_router)) \<and>
   fst (remove_virtual_device ''bus_game'' False patched_router) = True \<and>
   stop_log (snd (remove_virtual_device ''bus_game'' False patched_router))
     = [''bus_game'', ''bus_game''] \<and>
   stop_log (snd (remove_virtual_device ''bus_game'' True patched_router)) = [''bus_game''] \<and>
   get_virtual_device ''bus_game'' (snd (remove_virtual_device ''bus_game'' False patched_router))
     = None \<and>
   routing_table (snd (remove_virtual_device ''bus_game'' False patched_router))
     = [(''bus_mix'', ''bus_aux'')] \<and>
   routes (two_routes_one_bus
      \<lparr>virtual_router := snd (remove_virtual_device ''bus_game'' False patched_router)\<rparr>)
     = [(''game'', (4, ''bus_game'')), (''chat'', (4, ''bus_game''))]"
  using remove_virtual_device_effect [of "''bus_game''"
      "two_routes_one_bus\<lparr>virtual_router := patched_router\<rparr>"
      "VirtualAudioDevice_init ''bus_game'' 2 48000 1024"
      "snd (remove_virtual_device ''bus_game'' False patched_router)" False]
    remove_virtual_device_effect [of "''bus_game''"
      "two_routes_one_bus\<lparr>virtual_router := patched_router\<rparr>"
      "VirtualAudioDevice_init ''bus_game'' 2 48000 1024"
      "snd (remove_virtual_device ''bus_game'' True patched_router)" True]
  by (simp add: patched_router_def two_routes_one_bus_def eval_router)

section \<open>SpatialEnhancer\<close>

lemma rnd_err:
  assumes "round_to_nearest F u eta" "\<bar>x\<bar> \<le> c"
  shows "\<bar>rnd F x - x\<bar> \<le> u * c + eta"
proof -
  have "\<bar>rnd F x - x\<bar> \<le> u * \<bar>x\<bar> + eta" and "0 \<le> u"
    using assms(1) by (simp_all add: round_to_nearest_def)
  moreover have "u * \<bar>x\<bar> \<le> u * c"
    using assms(2) \<open>0 \<le> u\<close> by (rule mult_left_mono)
  ultimately show ?thesis by linarith
qed

lemma rnd_abs:
  assumes "round_to_nearest F u eta" "\<bar>x\<bar> \<le> c"
  shows "\<bar>rnd F x\<bar> \<le> 17 / 16 * c + 1 / 16"
proof -
  have e: "\<bar>rnd F x - x\<bar> \<le> u * c + eta" by (rule rnd_err[OF assms])
  have c0: "0 \<le> c" using assms(2) by linarith
  have "u \<le> 1 / 16" "eta \<le> 1 / 16" using assms(1) by (simp_all add: round_to_nearest_def)
  then have "u * c \<le> 1 / 16 * c" using c0 by (intro mult_right_mono)
  with e \<open>eta \<le> 1 / 16\<close> assms(2) show ?thesis by linarith
qed

lemma finish_Fin:
  assumes "round_to_nearest F u eta" "\<bar>x\<bar> \<le> c" "17 / 16 * c + 1 / 16 \<le> largest F"
  shows "finish F x = Fin (rnd F x)"
proof -
  have "\<bar>rnd F x\<bar> \<le> largest F" using rnd_abs[OF assms(1,2)] assms(3) by linarith
  then show ?thesis by (auto simp: finish_def Let_def)
qed

lemma rnd_unit:
  assumes "round_to_nearest F u eta" "\<bar>x\<bar> \<le> 1"
  shows "\<bar>rnd F x\<bar> \<le> 1"
proof -
  have mono: "\<And>a b. a \<le> b \<Longrightarrow> rnd F a \<le> rnd F b"
    and one: "rnd F 1 = 1" and mone: "rnd F (- 1) = - 1"
    using assms(1) by (simp_all add: round_to_nearest_def)
  have "rnd F x \<le> rnd F 1" using assms(2) by (intro mono) linarith
  moreover have "rnd F (- 1) \<le> rnd F x" using assms(2) by (intro mono) linarith
  ultimately show ?thesis using one mone by linarith
qed

lemma widen_frame:
  assumes rn: "round_to_nearest F u eta" and rp: "round_to_nearest P u' eta'"
    and w: "0 \<le> w" "w \<le> 1"
    and lr: "\<bar>l\<bar> \<le> B" "\<bar>r\<bar> \<le> B"
    and big: "10 * B + 6 \<le> largest F"
  shows "\<exists>a b. widen F P w [l, r] = [Fin a, Fin b] \<and> \<bar>a\<bar> \<le> 10 * B + 6 \<and> \<bar>b\<bar> \<le> 10 * B + 6 \<and>
           (w = 0 \<and> B \<le> 1 \<longrightarrow> \<bar>a - l\<bar> \<le> 9 * u + 5 * eta \<and> \<bar>b - r\<bar> \<le> 9 * u + 5 * eta)"
proof -
  have B0: "0 \<le> B" using lr(1) by linarith
  have u0: "0 \<le> u" "u \<le> 1 / 16" "0 \<le> eta" "eta \<le> 1 / 16"
    using rn by (simp_all add: round_to_nearest_def)
  define s where "s = rnd F (l + r)"
  define d where "d = rnd F (l - r)"
  define m where "m = rnd F (s / 2)"
  define sd where "sd = rnd F (d / 2)"
  define py where "py = rnd P (1 + w)"
  define g where "g = rnd F py"
  define sp where "sp = rnd F (sd * g)"
  define a where "a = rnd F (m + sp)"
  define b where "b = rnd F (m - sp)"
  \<comment> \<open>magnitudes, and no overflow\<close>
  have s1: "\<bar>l + r\<bar> \<le> 2 * B" and d1: "\<bar>l - r\<bar> \<le> 2 * B" using lr by linarith+
  have fs: "finish F (l + r) = Fin s" unfolding s_def
    using B0 big by (intro finish_Fin[OF rn s1]) argo
  have fd: "finish F (l - r) = Fin d" unfolding d_def
    using B0 big by (intro finish_Fin[OF rn d1]) argo
  have sb: "\<bar>s\<bar> \<le> 3 * B + 1" unfolding s_def using rnd_abs[OF rn s1] B0 by argo
  have db: "\<bar>d\<bar> \<le> 3 * B + 1" unfolding d_def using rnd_abs[OF rn d1] B0 by argo
  have s2: "\<bar>s / 2\<bar> \<le> 3 / 2 * B + 1 / 2" using sb by simp
  have d2: "\<bar>d / 2\<bar> \<le> 3 / 2 * B + 1 / 2" using db by simp
  have fm: "finish F (s / 2) = Fin m" unfolding m_def
    using B0 big by (intro finish_Fin[OF rn s2]) argo
  have fsd: "finish F (d / 2) = Fin sd" unfolding sd_def
    using B0 big by (intro finish_Fin[OF rn d2]) argo
  have mb: "\<bar>m\<bar> \<le> 2 * B + 1" unfolding m_def using rnd_abs[OF rn s2] B0 by argo
  have sdb: "\<bar>sd\<bar> \<le> 2 * B + 1" unfolding sd_def using rnd_abs[OF rn d2] B0 by argo
  have g0: "\<bar>1 + w\<bar> \<le> 2" using w by linarith
  have g1: "\<bar>py\<bar> \<le> 35 / 16" unfolding py_def using rnd_abs[OF rp g0] by argo
  have fg: "finish F py = Fin g" unfolding g_def
    using B0 big by (intro finish_Fin[OF rn g1]) argo
  have gb: "\<bar>g\<bar> \<le> 3" unfolding g_def using rnd_abs[OF rn g1] by argo
  have p1: "\<bar>sd * g\<bar> \<le> 6 * B + 3"
  proof -
    have "\<bar>sd\<bar> * \<bar>g\<bar> \<le> (2 * B + 1) * 3"
      using sdb gb B0 by (intro mult_mono) simp_all
    then show ?thesis by (simp add: abs_mult)
  qed
  have fsp: "finish F (sd * g) = Fin sp" unfolding sp_def
    using B0 big by (intro finish_Fin[OF rn p1]) argo
  have spb: "\<bar>sp\<bar> \<le> 7 * B + 4" unfolding sp_def using rnd_abs[OF rn p1] B0 by argo
  have a1: "\<bar>m + sp\<bar> \<le> 9 * B + 5" and b1: "\<bar>m - sp\<bar> \<le> 9 * B + 5"
    using mb spb by linarith+
  have fa: "finish F (m + sp) = Fin a" unfolding a_def
    using B0 big by (intro finish_Fin[OF rn a1]) argo
  have fb: "finish F (m - sp) = Fin b" unfolding b_def
    using B0 big by (intro finish_Fin[OF rn b1]) argo
  have ab: "\<bar>a\<bar> \<le> 10 * B + 6" unfolding a_def using rnd_abs[OF rn a1] B0 by argo
  have bb: "\<bar>b\<bar> \<le> 10 * B + 6" unfolding b_def using rnd_abs[OF rn b1] B0 by argo
  have eq: "widen F P w [l, r] = [Fin a, Fin b]"
    by (simp add: widen_def Let_def f_sub_def fs fd fm fsd fg[unfolded py_def] fsp fa fb)
  \<comment> \<open>the rounding errors at width zero\<close>
  have err: "\<bar>a - l\<bar> \<le> 9 * u + 5 * eta \<and> \<bar>b - r\<bar> \<le> 9 * u + 5 * eta" if "w = 0" "B \<le> 1"
  proof -
    have l1: "\<bar>l + r\<bar> \<le> 2" "\<bar>l - r\<bar> \<le> 2" using lr that(2) by linarith+
    have es: "\<bar>s - (l + r)\<bar> \<le> u * 2 + eta" unfolding s_def by (rule rnd_err[OF rn l1(1)])
    have ed: "\<bar>d - (l - r)\<bar> \<le> u * 2 + eta" unfolding d_def by (rule rnd_err[OF rn l1(2)])
    have s3: "\<bar>s / 2\<bar> \<le> 3 / 2" using es l1(1) u0 by argo
    have d3: "\<bar>d / 2\<bar> \<le> 3 / 2" using ed l1(2) u0 by argo
    have em: "\<bar>m - s / 2\<bar> \<le> u * (3 / 2) + eta" unfolding m_def by (rule rnd_err[OF rn s3])
    have esd: "\<bar>sd - d / 2\<bar> \<le> u * (3 / 2) + eta" unfolding sd_def by (rule rnd_err[OF rn d3])
    have m': "\<bar>m - (l + r) / 2\<bar> \<le> 5 / 2 * u + 3 / 2 * eta" using em es by argo
    have sd': "\<bar>sd - (l - r) / 2\<bar> \<le> 5 / 2 * u + 3 / 2 * eta" using esd ed by argo
    have sd2: "\<bar>sd\<bar> \<le> 2" using sd' l1(2) u0 by argo
    have "g = 1" unfolding g_def py_def using that(1) rn rp by (simp add: round_to_nearest_def)
    then have "sp = rnd F sd" by (simp add: sp_def)
    then have esp: "\<bar>sp - sd\<bar> \<le> u * 2 + eta" using rnd_err[OF rn sd2] by simp
    have t1: "\<bar>m + sp - l\<bar> \<le> 7 * u + 4 * eta" using m' sd' esp by argo
    have t2: "\<bar>m - sp - r\<bar> \<le> 7 * u + 4 * eta" using m' sd' esp by argo
    have t1b: "\<bar>m + sp\<bar> \<le> 2" using t1 lr(1) that(2) u0 by linarith
    have t2b: "\<bar>m - sp\<bar> \<le> 2" using t2 lr(2) that(2) u0 by linarith
    have ea: "\<bar>a - (m + sp)\<bar> \<le> u * 2 + eta" unfolding a_def by (rule rnd_err[OF rn t1b])
    have eb: "\<bar>b - (m - sp)\<bar> \<le> u * 2 + eta" unfolding b_def by (rule rnd_err[OF rn t2b])
    show ?thesis using ea eb t1 t2 by linarith
  qed
  from eq ab bb err show ?thesis by blast
qed

lemma widen_rows:
  assumes rn: "round_to_nearest F u eta" and rp: "round_to_nearest P u' eta'"
    and w: "0 \<le> w" "w \<le> 1"
    and big: "10 * B + 6 \<le> largest F"
    and rows: "\<forall>row\<in>set rows. length row = 2 \<and> (\<forall>v\<in>set row. \<bar>v\<bar> \<le> B)"
  shows "\<exists>vals. map (widen F P w) rows = map (map Fin) vals \<and> length vals = length rows \<and>
           (\<forall>row\<in>set vals. length row = 2) \<and>
           (w = 0 \<and> B \<le> 1 \<longrightarrow>
              (\<forall>i<length rows. \<forall>j<2. \<bar>vals ! i ! j - rows ! i ! j\<bar> \<le> 9 * u + 5 * eta))"
  using rows
proof (induction rows)
  case Nil
  then show ?case by simp
next
  case (Cons row rows)
  from Cons.prems have len: "length row = 2" by simp
  then obtain l r where row: "row = [l, r]"
    by (cases row; cases "tl row") auto
  from Cons.prems row have lr: "\<bar>l\<bar> \<le> B" "\<bar>r\<bar> \<le> B" by simp_all
  obtain a b where ab: "widen F P w [l, r] = [Fin a, Fin b]"
    and err: "w = 0 \<and> B \<le> 1 \<longrightarrow> \<bar>a - l\<bar> \<le> 9 * u + 5 * eta \<and> \<bar>b - r\<bar> \<le> 9 * u + 5 * eta"
    using widen_frame[OF rn rp w lr big] by blast
  obtain vals where v: "map (widen F P w) rows = map (map Fin) vals" "length vals = length rows"
      "\<forall>row\<in>set vals. length row = 2"
      "w = 0 \<and> B \<le> 1 \<longrightarrow>
         (\<forall>i<length rows. \<forall>j<2. \<bar>vals ! i ! j - rows ! i ! j\<bar> \<le> 9 * u + 5 * eta)"
    using Cons.IH Cons.prems by auto
  let ?vals = "[a, b] # vals"
  have 1: "map (widen F P w) (row # rows) = map (map Fin) ?vals" by (simp add: row ab v(1))
  have 2: "length ?vals = length (row # rows)" by (simp add: v(2))
  have 3: "\<forall>row\<in>set ?vals. length row = 2" using v(3) by simp
  have 4: "\<bar>?vals ! i ! j - (row # rows) ! i ! j\<bar> \<le> 9 * u + 5 * eta"
    if "w = 0" "B \<le> 1" "i < length (row # rows)" "j < 2" for i j
  proof (cases i)
    case 0
    from that(4) have "j = 0 \<or> j = 1" by auto
    then show ?thesis using 0 err that(1,2) by (auto simp: row)
  next
    case (Suc k)
    then show ?thesis using v(4) that by simp
  qed
  from 1 2 3 4 show ?case by blast
qed

lemma fold_f_max_Fin: "fold f_max (map Fin vs) (Fin v) = Fin (fold max vs v)"
  by (induction vs arbitrary: v) simp_all

lemma fold_max_bound: "v \<in> set (x # xs) \<Longrightarrow> v \<le> fold max xs (x::real)"
  unfolding Max.set_eq_fold[symmetric] by (rule Max_ge) simp_all

lemma fold_max_mem: "fold max xs (x::real) \<in> set (x # xs)"
  unfolding Max.set_eq_fold[symmetric] by (rule Max_in) simp_all

lemma concat_abs_Fin:
  "concat (map (map f_abs) (map (map Fin) vals)) = map Fin (concat (map (map abs) vals))"
  by (induction vals) simp_all

lemma np_max_abs_Fin:
  assumes "vals \<noteq> []" "\<forall>row\<in>set vals. length row = 2"
  shows "\<exists>m. np_max_abs (map (map Fin) vals) = Inr (Fin m) \<and>
           (\<forall>row\<in>set vals. \<forall>v\<in>set row. \<bar>v\<bar> \<le> m) \<and>
           (\<exists>row\<in>set vals. \<exists>v\<in>set row. m = \<bar>v\<bar>)"
proof -
  obtain r rs where vr: "vals = r # rs" using assms(1) by (cases vals) auto
  with assms(2) have "length r = 2" by simp
  then obtain a b where r: "r = [a, b]" by (cases r; cases "tl r") auto
  let ?all = "concat (map (map abs) vals)"
  obtain x xs where c: "?all = x # xs" by (simp add: vr r)
  have eq: "np_max_abs (map (map Fin) vals) = Inr (Fin (fold max xs x))"
    unfolding np_max_abs_def concat_abs_Fin c by (simp add: fold_f_max_Fin)
  have ub: "\<bar>v\<bar> \<le> fold max xs x" if "row \<in> set vals" "v \<in> set row" for row v
  proof -
    have "\<bar>v\<bar> \<in> set ?all" using that by auto
    then show ?thesis using fold_max_bound[of "\<bar>v\<bar>" x xs] c by simp
  qed
  have "fold max xs x \<in> set ?all" using fold_max_mem[of xs x] c by simp
  then have mem: "\<exists>row\<in>set vals. \<exists>v\<in>set row. fold max xs x = \<bar>v\<bar>" by auto
  from eq ub mem show ?thesis by blast
qed

text \<open>
  Claim C5, as amended. In floating-point arithmetic that rounds to nearest, of the
  buffer's type and of Python's floats, on a stereo buffer with at least one frame whose
  samples are at most \<open>B\<close> in magnitude, with
  \<open>10 B + 6\<close> within the range of the type so that nothing overflows, and for every
  width in \<open>[0, 1]\<close>: \<open>SpatialEnhancer._process_impl\<close> returns a new stereo buffer of
  as many frames, all its samples finite and none above magnitude one. With width zero
  and no input sample above magnitude one, each output sample is the input sample up to
  rounding: the two differ by at most \<open>19 u + 11 eta\<close>, which is about \<open>2.1e-15\<close> in
  double precision. It is not the input sample itself: the frame is recombined from mid
  and side in rounded arithmetic.
\<close>

theorem SpatialEnhancer_stereo:
  assumes rn: "round_to_nearest F u eta" and rp: "round_to_nearest P u' eta'"
    and wf: "wf_buffer (Arr2 2 rows)" and ne: "rows \<noteq> []"
    and w: "0 \<le> width se" "width se \<le> 1"
    and bound: "\<forall>row\<in>set rows. \<forall>v\<in>set row. \<bar>v\<bar> \<le> B"
    and big: "10 * B + 6 \<le> largest F"
  shows "\<exists>out. SpatialEnhancer_process_impl F P se (Arr2 2 rows) = Inr (New_buffer (map (map Fin) out)) \<and>
           length out = length rows \<and>
           (\<forall>row\<in>set out. length row = 2 \<and> (\<forall>v\<in>set row. \<bar>v\<bar> \<le> 1)) \<and>
           (width se = 0 \<and> B \<le> 1 \<longrightarrow>
              (\<forall>i<length rows. \<forall>j<2. \<bar>out ! i ! j - rows ! i ! j\<bar> \<le> 19 * u + 11 * eta))"
proof -
  have u0: "0 \<le> u" "0 \<le> eta" using rn by (simp_all add: round_to_nearest_def)
  have rows2: "\<forall>row\<in>set rows. length row = 2 \<and> (\<forall>v\<in>set row. \<bar>v\<bar> \<le> B)"
    using wf bound by (simp add: list_all_iff)
  have B0: "0 \<le> B"
  proof -
    obtain r rs where "rows = r # rs" using ne by (cases rows) auto
    with rows2 have "length r = 2" "\<forall>v\<in>set r. \<bar>v\<bar> \<le> B" by simp_all
    then obtain a where "a \<in> set r" by (cases r) auto
    with \<open>\<forall>v\<in>set r. \<bar>v\<bar> \<le> B\<close> have "\<bar>a\<bar> \<le> B" by blast
    then show ?thesis by linarith
  qed
  obtain vals where v: "map (widen F P (width se)) rows = map (map Fin) vals"
      "length vals = length rows" "\<forall>row\<in>set vals. length row = 2"
      "width se = 0 \<and> B \<le> 1 \<longrightarrow>
         (\<forall>i<length rows. \<forall>j<2. \<bar>vals ! i ! j - rows ! i ! j\<bar> \<le> 9 * u + 5 * eta)"
    using widen_rows[OF rn rp w big rows2] by blast
  have vne: "vals \<noteq> []" using v(2) ne by auto
  obtain m where m: "np_max_abs (map (map Fin) vals) = Inr (Fin m)"
      "\<forall>row\<in>set vals. \<forall>x\<in>set row. \<bar>x\<bar> \<le> m"
      "\<exists>row\<in>set vals. \<exists>x\<in>set row. m = \<bar>x\<bar>"
    using np_max_abs_Fin[OF vne v(3)] by blast
  show ?thesis
  proof (cases "1 < m")
    case False
    have eq: "SpatialEnhancer_process_impl F P se (Arr2 2 rows) = Inr (New_buffer (map (map Fin) vals))"
      using False by (simp add: SpatialEnhancer_process_impl_def Let_def v(1) m(1))
    have peak: "\<forall>row\<in>set vals. length row = 2 \<and> (\<forall>x\<in>set row. \<bar>x\<bar> \<le> 1)"
      using v(3) m(2) False by fastforce
    have near: "\<bar>vals ! i ! j - rows ! i ! j\<bar> \<le> 19 * u + 11 * eta"
      if "width se = 0" "B \<le> 1" "i < length rows" "j < 2" for i j
    proof -
      have "\<bar>vals ! i ! j - rows ! i ! j\<bar> \<le> 9 * u + 5 * eta" using v(4) that by blast
      with u0 show ?thesis by linarith
    qed
    from eq v(2) peak near show ?thesis by blast
  next
    case True
    then have m0: "m \<noteq> 0" "0 < m" by simp_all
    let ?out = "map (map (\<lambda>x. rnd F (x / m))) vals"
    have unit: "\<bar>x / m\<bar> \<le> 1" if "row \<in> set vals" "x \<in> set row" for row x
    proof -
      have "\<bar>x\<bar> \<le> m" using m(2) that by blast
      then show ?thesis using m0(2) by (simp add: field_simps)
    qed
    have large: "17 / 16 * 1 + 1 / 16 \<le> largest F" using big B0 by linarith
    have fin: "f_div F (Fin x) (Fin m) = Fin (rnd F (x / m))"
      if "row \<in> set vals" "x \<in> set row" for row x
      using finish_Fin[OF rn unit[OF that] large] m0(1) by simp
    have "map (map (\<lambda>x. f_div F x (Fin m))) (map (map Fin) vals) = map (map Fin) ?out"
      using fin by (simp add: comp_def)
    then have eq: "SpatialEnhancer_process_impl F P se (Arr2 2 rows) = Inr (New_buffer (map (map Fin) ?out))"
      using True by (simp add: SpatialEnhancer_process_impl_def Let_def v(1) m(1))
    have len: "length ?out = length rows" by (simp add: v(2))
    have peak: "\<forall>row\<in>set ?out. length row = 2 \<and> (\<forall>x\<in>set row. \<bar>x\<bar> \<le> 1)"
      using v(3) unit rnd_unit[OF rn] by auto
    have near: "\<bar>?out ! i ! j - rows ! i ! j\<bar> \<le> 19 * u + 11 * eta"
      if z: "width se = 0" "B \<le> 1" and i: "i < length rows" and j: "j < 2" for i j
    proof -
      have e9: "\<bar>vals ! i' ! j' - rows ! i' ! j'\<bar> \<le> 9 * u + 5 * eta"
        if "i' < length rows" "j' < 2" for i' j'
        using v(4) z that by blast
      have in_rows: "\<bar>rows ! i' ! j'\<bar> \<le> 1" if "i' < length rows" "j' < 2" for i' j'
      proof -
        have "rows ! i' \<in> set rows" using that(1) by simp
        moreover from this rows2 have "length (rows ! i') = 2" by blast
        ultimately have "\<bar>rows ! i' ! j'\<bar> \<le> B" using rows2 that(2) by (metis nth_mem)
        with z(2) show ?thesis by linarith
      qed
      \<comment> \<open>the peak is at most one rounding error above one\<close>
      obtain row x where rx: "row \<in> set vals" "x \<in> set row" "m = \<bar>x\<bar>" using m(3) by blast
      then obtain i' where i': "i' < length vals" "row = vals ! i'" by (metis in_set_conv_nth)
      from rx(1) v(3) have "length row = 2" by blast
      with rx(2) obtain j' where j': "j' < 2" "x = row ! j'" by (metis in_set_conv_nth)
      have "\<bar>x - rows ! i' ! j'\<bar> \<le> 9 * u + 5 * eta"
        using e9[of i' j'] i' j' v(2) by simp
      moreover have "\<bar>rows ! i' ! j'\<bar> \<le> 1" using in_rows[of i' j'] i' j' v(2) by simp
      ultimately have mb: "m - 1 \<le> 9 * u + 5 * eta" using rx(3) by linarith
      \<comment> \<open>this sample\<close>
      let ?x = "vals ! i ! j"
      have xi: "vals ! i \<in> set vals" using i v(2) by simp
      then have "length (vals ! i) = 2" using v(3) by blast
      then have xj: "?x \<in> set (vals ! i)" using j by simp
      have o: "?out ! i ! j = rnd F (?x / m)"
        using i j v(2) \<open>length (vals ! i) = 2\<close> by simp
      have q1: "\<bar>?x / m\<bar> \<le> 1" by (rule unit[OF xi xj])
      have r1: "\<bar>rnd F (?x / m) - ?x / m\<bar> \<le> u * 1 + eta" by (rule rnd_err[OF rn q1])
      have "?x / m - ?x = - (?x / m) * (m - 1)" using m0(1) by (simp add: field_simps)
      then have "\<bar>?x / m - ?x\<bar> = \<bar>?x / m\<bar> * (m - 1)"
        using True by (simp add: abs_mult)
      also have "\<dots> \<le> 1 * (m - 1)" using q1 True by (intro mult_right_mono) simp_all
      finally have "\<bar>?x / m - ?x\<bar> \<le> m - 1" by simp
      then have q2: "\<bar>?x / m - ?x\<bar> \<le> 9 * u + 5 * eta" using mb by linarith
      show ?thesis using o r1 q2 e9[OF i j] by linarith
    qed
    from eq len peak near show ?thesis by blast
  qed
qed

lemma round_to_nearest_exact: "round_to_nearest exact_format 0 0"
  by (simp add: round_to_nearest_def exact_format_def)

lemma round_to_nearest_grid: "round_to_nearest grid_format 0 (1 / 16)"
proof -
  have mono: "rnd grid_format x \<le> rnd grid_format y" if "x \<le> y" for x y
  proof -
    have "\<lfloor>x * 8 + 1 / 2\<rfloor> \<le> \<lfloor>y * 8 + 1 / 2\<rfloor>" using that by (intro floor_mono) simp
    then show ?thesis by (simp add: grid_format_def divide_right_mono)
  qed
  have err: "\<bar>rnd grid_format x - x\<bar> \<le> 0 * \<bar>x\<bar> + 1 / 16" for x
  proof -
    define z :: real where "z = of_int \<lfloor>x * 8 + 1 / 2\<rfloor>"
    have "z \<le> x * 8 + 1 / 2" "x * 8 + 1 / 2 - 1 < z"
      unfolding z_def by linarith+
    then have "\<bar>z / 8 - x\<bar> \<le> 0 * \<bar>x\<bar> + 1 / 16" by argo
    then show ?thesis by (simp add: grid_format_def z_def)
  qed
  have one: "rnd grid_format 1 = 1" "rnd grid_format (- 1) = - 1"
    by (simp_all add: grid_format_def)
  from mono err one show ?thesis unfolding round_to_nearest_def by simp
qed

lemmas eval_widen =
  SpatialEnhancer_process_impl_def SpatialEnhancer_init_def widen_def np_max_abs_def
  f_sub_def finish_def exact_format_def Let_def

theorem SpatialEnhancer_stereo_counterexample:
  "width (SpatialEnhancer_init 0) = 0 \<and>
   SpatialEnhancer_process_impl exact_format exact_format (SpatialEnhancer_init 0) (Arr2 2 [[2, 1]])
     = Inr (New_buffer [[Fin 1, Fin (1 / 2)]]) \<and>
   SpatialEnhancer_process_impl exact_format exact_format (SpatialEnhancer_init 0) (Arr2 2 [[2, 1]])
     \<noteq> Inr (New_buffer [[Fin 2, Fin 1]])"
  by (simp add: eval_widen)

theorem SpatialEnhancer_stereo_witness:
  "round_to_nearest exact_format 0 0 \<and>
   round_to_nearest grid_format 0 (1 / 16) \<and>
   0 \<le> width (SpatialEnhancer_init 1) \<and> width (SpatialEnhancer_init 1) \<le> 1 \<and>
   wf_buffer (Arr2 2 [[1 / 2, - 1 / 4], [0, 1 / 2]]) \<and>
   [[1 / 2, - 1 / 4], [0, 1 / 2 :: real]] \<noteq> [] \<and>
   10 * (1 / 2) + 6 \<le> largest exact_format \<and>
   SpatialEnhancer_process_impl exact_format exact_format (SpatialEnhancer_init 0)
       (Arr2 2 [[1 / 2, - 1 / 4], [0, 1 / 2]])
     = Inr (New_buffer [[Fin (1 / 2), Fin (- 1 / 4)], [Fin 0, Fin (1 / 2)]]) \<and>
   SpatialEnhancer_process_impl exact_format exact_format (SpatialEnhancer_init 1)
       (Arr2 2 [[1 / 2, - 1 / 4], [0, 1 / 2]])
     = Inr (New_buffer [[Fin (7 / 8), Fin (- 5 / 8)], [Fin (- 1 / 4), Fin (3 / 4)]]) \<and>
   SpatialEnhancer_process_impl exact_format exact_format (SpatialEnhancer_init 1)
       (Arr2 2 [[1, - 1], [1 / 2, 0]])
     = Inr (New_buffer [[Fin 1, Fin (- 1)], [Fin (3 / 8), Fin (- 1 / 8)]]) \<and>
   SpatialEnhancer_process_impl grid_format exact_format (SpatialEnhancer_init 0)
       (Arr2 2 [[1 / 4, 1 / 8]])
     = Inr (New_buffer [[Fin (3 / 8), Fin (1 / 8)]])"
  using SpatialEnhancer_stereo [of exact_format 0 0 exact_format 0 0 "[[1 / 2, - 1 / 4], [0, 1 / 2]]"
      "SpatialEnhancer_init 0" "1 / 2"]
    SpatialEnhancer_stereo [of exact_format 0 0 exact_format 0 0 "[[1 / 2, - 1 / 4], [0, 1 / 2]]"
      "SpatialEnhancer_init 1" "1 / 2"]
    SpatialEnhancer_stereo [of exact_format 0 0 exact_format 0 0 "[[1, - 1], [1 / 2, 0]]"
      "SpatialEnhancer_init 1" 1]
    SpatialEnhancer_stereo [of grid_format 0 "1 / 16" exact_format 0 0 "[[1 / 4, 1 / 8]]"
      "SpatialEnhancer_init 0" "1 / 4"]
    round_to_nearest_exact round_to_nearest_grid
  by (simp add: eval_widen grid_format_def)

section \<open>NoiseReducer\<close>

lemma soft_mask_cases:
  assumes "0 < t"
  shows "\<bar>x\<bar> \<le> t \<Longrightarrow> soft_mask t x = Fin 0"
    and "t < \<bar>x\<bar> \<Longrightarrow> \<bar>x\<bar> < 2 * t \<Longrightarrow> soft_mask t x = Fin ((\<bar>x\<bar> - t) / t)"
    and "2 * t \<le> \<bar>x\<bar> \<Longrightarrow> soft_mask t x = Fin 1"
  using assms
  by (simp_all add: soft_mask_def np_div_def min_def max_def field_simps)

text \<open>
  Claim C4, as amended. For a threshold \<open>t > 0\<close> and a one-dimensional buffer, the gate
  multiplies each sample \<open>x\<close> by \<open>clip((|x| - t) / t, 0, 1)\<close>: a sample of magnitude at
  most \<open>t\<close> becomes zero, a sample of magnitude between \<open>t\<close> and \<open>2t\<close> is scaled by
  \<open>(|x| - t) / t\<close>, which grows linearly from zero at \<open>t\<close> to one at \<open>2t\<close>, and a
  sample of magnitude \<open>2t\<close> or more passes unchanged.
\<close>

theorem NoiseReducer_soft_gate:
  assumes "0 < threshold nr" and "i < length xs"
  shows "\<exists>ys. NoiseReducer_process_impl nr (Arr1 xs) = Gated1 ys \<and> length ys = length xs \<and>
           (\<bar>xs ! i\<bar> \<le> threshold nr \<longrightarrow> ys ! i = Fin 0) \<and>
           (threshold nr < \<bar>xs ! i\<bar> \<and> \<bar>xs ! i\<bar> < 2 * threshold nr \<longrightarrow>
              ys ! i = Fin (xs ! i * ((\<bar>xs ! i\<bar> - threshold nr) / threshold nr))) \<and>
           (2 * threshold nr \<le> \<bar>xs ! i\<bar> \<longrightarrow> ys ! i = Fin (xs ! i))"
  using assms
  by (simp add: NoiseReducer_process_impl_def soft_mask_cases)

theorem NoiseReducer_soft_gate_counterexample:
  "threshold (NoiseReducer_init (1 / 2)) < \<bar>3 / 4\<bar> \<and>
   NoiseReducer_process_impl (NoiseReducer_init (1 / 2)) (Arr1 [3 / 4]) = Gated1 [Fin (3 / 8)] \<and>
   NoiseReducer_process_impl (NoiseReducer_init (1 / 2)) (Arr1 [3 / 4]) \<noteq> Gated1 [Fin (3 / 4)]"
  by (simp add: NoiseReducer_process_impl_def NoiseReducer_init_def soft_mask_def np_div_def)

theorem NoiseReducer_soft_gate_witness:
  "0 < threshold (NoiseReducer_init (1 / 2)) \<and>
   NoiseReducer_process_impl (NoiseReducer_init (1 / 2)) (Arr1 [1 / 4, 3 / 4, - 2])
     = Gated1 [Fin 0, Fin (3 / 8), Fin (- 2)]"
  using NoiseReducer_soft_gate [of "NoiseReducer_init (1 / 2)" 0 "[1 / 4, 3 / 4, - 2]"]
    NoiseReducer_soft_gate [of "NoiseReducer_init (1 / 2)" 1 "[1 / 4, 3 / 4, - 2]"]
    NoiseReducer_soft_gate [of "NoiseReducer_init (1 / 2)" 2 "[1 / 4, 3 / 4, - 2]"]
  by (simp add: NoiseReducer_process_impl_def NoiseReducer_init_def soft_mask_def np_div_def)

text \<open>
  Claim C3, at the inputs where the code leaves it. With the threshold set to zero the
  mask is a division by zero: a sample that is zero comes back as NaN, so a buffer with
  a silent sample is not returned unchanged; and a two-dimensional buffer of shape
  \<open>(2, 2)\<close> comes back as an array of shape \<open>(2, 2, 2)\<close>.
\<close>

theorem NoiseReducer_threshold_zero:
  "threshold (set_threshold 0 (NoiseReducer_init (1 / 10))) = 0 \<and>
   NoiseReducer_process (set_threshold 0 (NoiseReducer_init (1 / 10))) (Arr1 [1 / 2, 0, - 1 / 4])
     = Gated1 [Fin (1 / 2), NaN, Fin (- 1 / 4)] \<and>
   NoiseReducer_process (set_threshold 0 (NoiseReducer_init (1 / 10))) (Arr2 2 [[1 / 2, 1 / 2], [1 / 4, 1 / 4]])
     = Gated3 [[[Fin (1 / 2), Fin (1 / 2)], [Fin (1 / 4), Fin (1 / 4)]],
               [[Fin (1 / 2), Fin (1 / 2)], [Fin (1 / 4), Fin (1 / 4)]]]"
  by (simp add: NoiseReducer_process_def NoiseReducer_process_impl_def NoiseReducer_init_def
      set_threshold_def soft_mask_def np_div_def)

section \<open>Equalizer: what process does\<close>

lemma Equalizer_process_state: "snd (Equalizer_process e data) = e"
  by (simp add: Equalizer_process_def Equalizer_process_impl_def)

lemma process_ticks_state: "snd (process_ticks e bufs) = e"
  by (induction bufs arbitrary: e) (simp_all add: split_beta Equalizer_process_state)

text \<open>
  Claim C1, at an input where the code leaves it. A new ten-band equalizer has all
  gains at 0 dB, no filter and 0 dB output gain: the claim has \<open>process\<close> return the
  buffer as it is. The code multiplies the buffer by each target gain in dB, so it
  returns silence. After \<open>set_gain(0, 6.0)\<close> it returns silence as well, the equalizer
  is handed back as it was, and the smoothed gain of band 0 is still 0 while its target
  is 6: no smoothing step, no rebuilt coefficients, no filter, no output gain.
\<close>

theorem Equalizer_process_multiplies_by_db:
  "Equalizer_process (snd (Equalizer_init butter 48000 10)) (Arr1 [1, - 1 / 2])
     = (Arr1 [0, 0], snd (Equalizer_init butter 48000 10)) \<and>
   Equalizer_process (snd (set_gain 0 6 (snd (Equalizer_init butter 48000 10)))) (Arr1 [1, - 1 / 2])
     = (Arr1 [0, 0], snd (set_gain 0 6 (snd (Equalizer_init butter 48000 10)))) \<and>
   gains (snd (set_gain 0 6 (snd (Equalizer_init butter 48000 10)))) ! 0 = 6 \<and>
   smoothed_gains (snd (Equalizer_process (snd (set_gain 0 6 (snd (Equalizer_init butter 48000 10))))
      (Arr1 [1, - 1 / 2]))) ! 0 = 0"
  by (simp add: Equalizer_process_def Equalizer_process_impl_def set_gain_def Equalizer_init_fields
      eval_nat_numeral upt_rec)

text \<open>
  Claim C2, at an input where the code leaves it. After \<open>set_gain(0, 6.0)\<close> on a new
  ten-band equalizer at 48 kHz, eight ticks of 1024 samples (171 ms, more than five times
  the 30 ms time constant) leave the smoothed gain of band 0 at 0 dB, 6 dB away from its
  target.
\<close>

theorem Equalizer_never_smooths:
  "gains (snd (set_gain 0 6 (snd (Equalizer_init butter 48000 10)))) ! 0 = 6 \<and>
   smoothed_gains (snd (process_ticks (snd (set_gain 0 6 (snd (Equalizer_init butter 48000 10))))
      (replicate 8 (Arr1 (replicate 1024 1))))) ! 0 = 0"
  unfolding process_ticks_state
  by (simp add: set_gain_def Equalizer_init_fields eval_nat_numeral)

end
